theory Spec2Isabelle
  imports Main
begin

section \<open>The JNI binding of libarchive: data model\<close>

text \<open>
  The development embeds \<^verbatim>\<open>library/src/main/jni/archive-jni.c\<close>, the JNI layer between
  the Java classes \<^verbatim>\<open>Archive\<close>/\<^verbatim>\<open>ArchiveEntry\<close> and the native library libarchive.
  Three parties meet in every function of that file:
  \<^item> the Java virtual machine, reached through \<^verbatim>\<open>JNIEnv *env\<close>: pending exception,
    global references, pinned arrays, \<^verbatim>\<open>ByteBuffer\<close> objects;
  \<^item> the C heap (\<^verbatim>\<open>malloc\<close>/\<^verbatim>\<open>free\<close>) and the per-archive \<^verbatim>\<open>struct ArchiveJniData\<close>;
  \<^item> libarchive itself (\<^verbatim>\<open>archive_read_next_header\<close>, \<^verbatim>\<open>archive_write_data\<close>, ...),
    whose code is not part of the binding. Every libarchive function a binding function
    calls is a parameter of its model, named as in \<^verbatim>\<open>archive.h\<close>; it transforms the native
    handle and returns what the C function returns.
\<close>

subsection \<open>Java values\<close>

type_synonym jobject = nat
  \<comment> \<open>identity of a Java object; \<^verbatim>\<open>NULL\<close> is \<open>None\<close> of \<open>jobject option\<close>\<close>

type_synonym bytes = string
  \<comment> \<open>contents of a \<^verbatim>\<open>byte[]\<close>, of native memory, or of a C string without its terminator\<close>

datatype throwable =
  Throwable (thIsArchive: bool) (thCode: int) (thMessage: "string option")
            (thCause: "throwable option")
  \<comment> \<open>a Java exception: whether it is an \<^verbatim>\<open>ArchiveException\<close>, what \<^verbatim>\<open>getCode()\<close> and
      \<^verbatim>\<open>getMessage()\<close> return, and its cause\<close>

definition OutOfMemoryError :: throwable where
  "OutOfMemoryError = Throwable False 0 None None"

definition IllegalArgumentException :: throwable where
  "IllegalArgumentException = Throwable False 0 (Some ''newPosition'') None"

datatype jref = LocalRef jobject | GlobalRef nat jobject
  \<comment> \<open>a JNI reference: a local one, or the global reference with the given id\<close>

fun referent :: "jref \<Rightarrow> jobject" where
  "referent (LocalRef obj) = obj"
| "referent (GlobalRef i obj) = obj"

text \<open>
  \<^verbatim>\<open>java.nio.ByteBuffer\<close> as the binding sees it: the four indices of \<^verbatim>\<open>java.nio.Buffer\<close>,
  whether \<^verbatim>\<open>GetDirectBufferAddress\<close> yields an address, and what \<^verbatim>\<open>hasArray()\<close>,
  \<^verbatim>\<open>array()\<close> and \<^verbatim>\<open>arrayOffset()\<close> return. A mark of \<open>-1\<close> is the undefined mark.
\<close>

record ByteBuffer =
  bbMark :: int
  bbPosition :: int
  bbLimit :: int
  bbCapacity :: int
  bbDirect :: bool
  bbHasArray :: bool
  bbArray :: jobject
  bbArrayOffset :: int

datatype upcall = OnOpen "jref option" | OnPassphrase "jref option"
  \<comment> \<open>one invocation of a Java callback method by the binding, with the reference it was
      invoked through\<close>

subsection \<open>The runtime reached through \<^verbatim>\<open>env\<close>, and the C heap\<close>

text \<open>
  \<open>allocTape\<close> decides the fallible services (\<^verbatim>\<open>NewGlobalRef\<close>, \<^verbatim>\<open>NewStringUTF\<close>,
  \<^verbatim>\<open>NewObject\<close>, \<^verbatim>\<open>GetStringUTFChars\<close>, \<^verbatim>\<open>GetByteArrayElements\<close> where its result is
  checked, \<^verbatim>\<open>PushLocalFrame\<close>, \<^verbatim>\<open>malloc\<close>): each attempt consumes the head of the tape
  and succeeds iff it is \<open>True\<close>; on the empty tape every attempt succeeds.
  \<open>pinned\<close> lists the arrays whose elements are held through \<^verbatim>\<open>GetByteArrayElements\<close>;
  the elements pointer aliases the array, so a release mode only matters to the log
  \<open>released\<close>. Local references are not tracked: they die with the native frame.
\<close>

record JNIEnv =
  pending :: "throwable option"
  globalRefs :: "nat set"
  nextRef :: nat
  pinned :: "jobject list"
  released :: "(jobject \<times> int) list"
  buffers :: "jobject \<Rightarrow> ByteBuffer"
  arrays :: "jobject \<Rightarrow> bytes"
  directMem :: "jobject \<Rightarrow> bytes"
  mallocBlocks :: "nat set"
  nextBlock :: nat
  allocTape :: "bool list"
  upcalls :: "upcall list"

datatype cstring = CString (csBlock: nat) (csChars: bytes)
  \<comment> \<open>a \<^verbatim>\<open>malloc\<close>ed, NUL-terminated string: its block and its characters\<close>

definition JNI_ABORT :: int where "JNI_ABORT = 2"
  \<comment> \<open>\<^verbatim>\<open>jni.h\<close>; mode \<open>0\<close> copies back and frees\<close>

definition ARCHIVE_EOF :: int where "ARCHIVE_EOF = 1"
definition ARCHIVE_OK :: int where "ARCHIVE_OK = 0"
definition ARCHIVE_FATAL :: int where "ARCHIVE_FATAL = - 30"
  \<comment> \<open>the return codes of \<^verbatim>\<open>archive.h\<close>, a header of libarchive that the binding includes\<close>

definition allocOk :: "JNIEnv \<Rightarrow> bool" where
  "allocOk env = (case allocTape env of [] \<Rightarrow> True | ok # rest \<Rightarrow> ok)"
  \<comment> \<open>whether the next fallible service succeeds\<close>

definition allocNext :: "JNIEnv \<Rightarrow> JNIEnv" where
  "allocNext env = env\<lparr>allocTape := tl (allocTape env)\<rparr>"
  \<comment> \<open>the runtime after one attempt\<close>

definition ExceptionClear :: "JNIEnv \<Rightarrow> JNIEnv" where
  "ExceptionClear env = env\<lparr>pending := None\<rparr>"

definition ExceptionDescribe :: "JNIEnv \<Rightarrow> JNIEnv" where
  "ExceptionDescribe env = env"
  \<comment> \<open>prints the pending exception; Android's runtime leaves it pending\<close>

definition Throw :: "JNIEnv \<Rightarrow> throwable \<Rightarrow> JNIEnv" where
  "Throw env t = env\<lparr>pending := Some t\<rparr>"

definition NewStringUTF :: "JNIEnv \<Rightarrow> string \<Rightarrow> string option \<times> JNIEnv" where
  "NewStringUTF env m =
     (if allocOk env then (Some m, allocNext env)
      else (None, Throw (allocNext env) OutOfMemoryError))"

definition GetStringUTFChars :: "JNIEnv \<Rightarrow> string \<Rightarrow> string option \<times> JNIEnv" where
  "GetStringUTFChars env m =
     (if allocOk env then (Some m, allocNext env)
      else (None, Throw (allocNext env) OutOfMemoryError))"

definition NewGlobalRef :: "JNIEnv \<Rightarrow> jobject option \<Rightarrow> jref option \<times> JNIEnv" where
  "NewGlobalRef env obj =
     (case obj of
        None \<Rightarrow> (None, env)
      | Some x \<Rightarrow>
          if allocOk env
          then (Some (GlobalRef (nextRef env) x),
                (allocNext env)\<lparr>globalRefs := insert (nextRef env) (globalRefs env),
                                 nextRef := Suc (nextRef env)\<rparr>)
          else (None, allocNext env))"

definition DeleteGlobalRef :: "JNIEnv \<Rightarrow> jref option \<Rightarrow> JNIEnv" where
  "DeleteGlobalRef env r =
     (case r of
        Some (GlobalRef i obj) \<Rightarrow> env\<lparr>globalRefs := globalRefs env - {i}\<rparr>
      | _ \<Rightarrow> env)"
  \<comment> \<open>\<^verbatim>\<open>NULL\<close> is ignored; a reference that is not global owns no global slot\<close>

definition free :: "JNIEnv \<Rightarrow> cstring option \<Rightarrow> JNIEnv" where
  "free env p =
     (case p of
        None \<Rightarrow> env
      | Some c \<Rightarrow> env\<lparr>mallocBlocks := mallocBlocks env - {csBlock c}\<rparr>)"

subsection \<open>The native handle and the binding's own data\<close>

text \<open>
  \<^verbatim>\<open>struct archive\<close> as the binding reads it: \<^verbatim>\<open>archive_errno\<close>, \<^verbatim>\<open>archive_error_string\<close>,
  the client data of the read callbacks (\<^verbatim>\<open>archive_read_get_callback_data\<close>), and the
  library's own state \<open>impl\<close>, of a type the binding never looks into.
\<close>

record 'n archive =
  archive_errno :: int
  archive_error_string :: "string option"
  read_callback_data :: "jref option list"
  impl :: 'n

definition archive_set_error :: "'n archive \<Rightarrow> int \<Rightarrow> string option \<Rightarrow> 'n archive" where
  "archive_set_error a number message =
     a\<lparr>archive_errno := number, archive_error_string := message\<rparr>"
  \<comment> \<open>\<^verbatim>\<open>archive_set_error(a, number, "%s", message)\<close>, and with a \<^verbatim>\<open>NULL\<close> format: the
      number and text that \<^verbatim>\<open>archive_errno\<close> and \<^verbatim>\<open>archive_error_string\<close> return next\<close>

record ArchiveJniData =
  openMemoryJavaArray :: "jref option"
  openMemoryArray :: "jobject option"
  openMemoryArrayReleaseMode :: int
  writeOpenMemoryJavaBuffer :: "jref option"
  writeOpenMemoryPosition :: int
  writeOpenMemoryUsed :: nat
  hasReadClientData :: bool
  writeClientData :: "jref option"
  readCallback :: "jref option"
  readJavaArray :: "jref option"
  readArray :: "jobject option"
  skipCallback :: "jref option"
  seekCallback :: "jref option"
  writeCallback :: "jref option"
  openCallback :: "jref option"
  closeCallback :: "jref option"
  freeCallback :: "jref option"
  switchCallback :: "jref option"
  passphraseClientData :: "jref option"
  passphraseCallback :: "jref option"
  passphrase :: "cstring option"

record 'n session =
  s_env :: JNIEnv
  s_jniData :: ArchiveJniData
  s_archive :: "'n archive"

type_synonym archive_entry = nat

definition jniReturn :: "JNIEnv \<Rightarrow> 'a \<Rightarrow> throwable + 'a" where
  "jniReturn env v = (case pending env of Some t \<Rightarrow> Inl t | None \<Rightarrow> Inr v)"
  \<comment> \<open>what the Java caller of a native method observes: the pending exception if there is
      one, the returned value otherwise\<close>

section \<open>Raising \<^verbatim>\<open>ArchiveException\<close>\<close>

definition NewObject_ArchiveException ::
  "JNIEnv \<Rightarrow> int \<Rightarrow> string option \<Rightarrow> throwable option \<Rightarrow> throwable option \<times> JNIEnv" where
  "NewObject_ArchiveException env code javaMessage cause =
     (if allocOk env then (Some (Throwable True code javaMessage cause), allocNext env)
      else (None, Throw (allocNext env) OutOfMemoryError))"

definition throwArchiveException :: "JNIEnv \<Rightarrow> int \<Rightarrow> string option \<Rightarrow> JNIEnv" where
  "throwArchiveException env code message =
     (let cause = pending env;
          env1 = (if cause \<noteq> None then ExceptionClear env else env);
          (javaMessage, env2) =
            (case message of
               None \<Rightarrow> (None, env1)
             | Some m \<Rightarrow>
                 (case NewStringUTF env1 m of
                    (None, e) \<Rightarrow> (None, ExceptionClear (ExceptionDescribe e))
                  | (Some jm, e) \<Rightarrow> (Some jm, e)));
          (exception, env3) = NewObject_ArchiveException env2 code javaMessage cause
      in case exception of
           None \<Rightarrow> ExceptionDescribe env3
         | Some ex \<Rightarrow> Throw env3 ex)"

definition throwArchiveExceptionFromError :: "JNIEnv \<Rightarrow> 'n archive \<Rightarrow> JNIEnv" where
  "throwArchiveExceptionFromError env a =
     throwArchiveException env (archive_errno a) (archive_error_string a)"

section \<open>Entry headers\<close>

definition Archive_readNextHeader ::
  "('n archive \<Rightarrow> int \<times> archive_entry option \<times> 'n archive) \<Rightarrow> 'n session \<Rightarrow>
     archive_entry option \<times> 'n session" where
  "Archive_readNextHeader archive_read_next_header s =
     (case archive_read_next_header (s_archive s) of
        (errorCode, entry, a) \<Rightarrow>
          if errorCode \<noteq> 0 then
            (None,
             if errorCode \<noteq> ARCHIVE_EOF
             then s\<lparr>s_env := throwArchiveExceptionFromError (s_env s) a, s_archive := a\<rparr>
             else s\<lparr>s_archive := a\<rparr>)
          else (entry, s\<lparr>s_archive := a\<rparr>))"

text \<open>
  \<^verbatim>\<open>writeOpenMemory\<close> registers the address of \<^verbatim>\<open>jniData->writeOpenMemoryUsed\<close> with the
  library (\<^verbatim>\<open>archive_write_open_memory(archive, buffer, bufferSize, &jniData->writeOpenMemoryUsed)\<close>),
  and the library's memory sink stores the number of bytes emitted so far through it.
  A library call of the write side is therefore given the handle and that counter, and
  returns its code, the handle and the counter as it leaves them.
\<close>

definition Archive_writeHeader ::
  "('n archive \<Rightarrow> nat \<Rightarrow> archive_entry \<Rightarrow> int \<times> 'n archive \<times> nat) \<Rightarrow> 'n session \<Rightarrow>
     archive_entry \<Rightarrow> 'n session" where
  "Archive_writeHeader archive_write_header s entry =
     (case archive_write_header (s_archive s) (writeOpenMemoryUsed (s_jniData s)) entry of
        (errorCode, a, used) \<Rightarrow>
          if errorCode \<noteq> 0
          then s\<lparr>s_env := throwArchiveExceptionFromError (s_env s) a,
                 s_jniData := (s_jniData s)\<lparr>writeOpenMemoryUsed := used\<rparr>, s_archive := a\<rparr>
          else s\<lparr>s_jniData := (s_jniData s)\<lparr>writeOpenMemoryUsed := used\<rparr>, s_archive := a\<rparr>)"

definition Archive_writeFinishEntry ::
  "('n archive \<Rightarrow> nat \<Rightarrow> int \<times> 'n archive \<times> nat) \<Rightarrow> 'n session \<Rightarrow> 'n session" where
  "Archive_writeFinishEntry archive_write_finish_entry s =
     (case archive_write_finish_entry (s_archive s) (writeOpenMemoryUsed (s_jniData s)) of
        (errorCode, a, used) \<Rightarrow>
          if errorCode \<noteq> 0
          then s\<lparr>s_env := throwArchiveExceptionFromError (s_env s) a,
                 s_jniData := (s_jniData s)\<lparr>writeOpenMemoryUsed := used\<rparr>, s_archive := a\<rparr>
          else s\<lparr>s_jniData := (s_jniData s)\<lparr>writeOpenMemoryUsed := used\<rparr>, s_archive := a\<rparr>)"

section \<open>Byte buffers crossing the boundary\<close>

text \<open>
  The methods of \<^verbatim>\<open>java.nio.Buffer\<close> belong to the Java runtime, not to the binding;
  they are written out from their documentation. \<^verbatim>\<open>position()\<close>, \<^verbatim>\<open>limit()\<close>,
  \<^verbatim>\<open>hasArray()\<close> and \<^verbatim>\<open>arrayOffset()\<close> read the buffer and leave the runtime as it is, so
  the \<^verbatim>\<open>ExceptionCheck\<close> after each of them tests the exception that was pending before.
  \<^verbatim>\<open>position(int)\<close> throws \<^verbatim>\<open>IllegalArgumentException\<close> unless
  \<open>0 \<le> newPosition \<le> limit\<close>, and discards a mark beyond the new position.
\<close>

definition c_int :: "int \<Rightarrow> int" where
  "c_int x = (x + 2 ^ 31) mod 2 ^ 32 - 2 ^ 31"
  \<comment> \<open>conversion to a 32-bit \<^verbatim>\<open>int\<close>/\<^verbatim>\<open>jint\<close>\<close>

definition size_t :: "int \<Rightarrow> nat" where
  "size_t x = nat (x mod 2 ^ 64)"

definition ExceptionCheck :: "JNIEnv \<Rightarrow> bool" where
  "ExceptionCheck env = (pending env \<noteq> None)"

definition getByteBufferPosition :: "JNIEnv \<Rightarrow> jobject \<Rightarrow> int" where
  "getByteBufferPosition env byteBuffer = bbPosition (buffers env byteBuffer)"

definition getByteBufferLimit :: "JNIEnv \<Rightarrow> jobject \<Rightarrow> int" where
  "getByteBufferLimit env byteBuffer = bbLimit (buffers env byteBuffer)"

definition getByteBufferHasArray :: "JNIEnv \<Rightarrow> jobject \<Rightarrow> bool" where
  "getByteBufferHasArray env byteBuffer = bbHasArray (buffers env byteBuffer)"

definition getByteBufferArrayOffset :: "JNIEnv \<Rightarrow> jobject \<Rightarrow> int" where
  "getByteBufferArrayOffset env byteBuffer = bbArrayOffset (buffers env byteBuffer)"

definition getByteBufferArray :: "JNIEnv \<Rightarrow> jobject \<Rightarrow> jobject option" where
  "getByteBufferArray env byteBuffer =
     (if bbHasArray (buffers env byteBuffer) then Some (bbArray (buffers env byteBuffer))
      else None)"

definition setByteBufferPosition :: "JNIEnv \<Rightarrow> jobject \<Rightarrow> int \<Rightarrow> JNIEnv" where
  "setByteBufferPosition env byteBuffer position =
     (let b = buffers env byteBuffer in
      if position > bbLimit b \<or> position < 0 then Throw env IllegalArgumentException
      else env\<lparr>buffers := (buffers env)
                 (byteBuffer := b\<lparr>bbMark := (if bbMark b > position then - 1 else bbMark b),
                                   bbPosition := position\<rparr>)\<rparr>)"

definition GetByteArrayElements :: "JNIEnv \<Rightarrow> jobject \<Rightarrow> jobject option \<times> JNIEnv" where
  "GetByteArrayElements env javaArray =
     (if allocOk env then (Some javaArray, (allocNext env)\<lparr>pinned := javaArray # pinned env\<rparr>)
      else (None, allocNext env))"
  \<comment> \<open>the elements pointer, named by the array it points into\<close>

definition ReleaseByteArrayElements :: "JNIEnv \<Rightarrow> jobject \<Rightarrow> int \<Rightarrow> JNIEnv" where
  "ReleaseByteArrayElements env elems mode =
     env\<lparr>pinned := remove1 elems (pinned env), released := released env @ [(elems, mode)]\<rparr>"

datatype cptr = DirectPtr jobject int | ArrayPtr jobject int
  \<comment> \<open>a native address: into a direct buffer's memory or into an array's elements, at a
      byte offset\<close>

definition splice :: "bytes \<Rightarrow> nat \<Rightarrow> bytes \<Rightarrow> bytes" where
  "splice mem off new = take off mem @ new @ drop (off + length new) mem"

fun memWrite :: "JNIEnv \<Rightarrow> cptr \<Rightarrow> bytes \<Rightarrow> JNIEnv" where
  "memWrite env (DirectPtr b off) new =
     env\<lparr>directMem := (directMem env)(b := splice (directMem env b) (nat off) new)\<rparr>"
| "memWrite env (ArrayPtr arr off) new =
     env\<lparr>arrays := (arrays env)(arr := splice (arrays env arr) (nat off) new)\<rparr>"

fun memRead :: "JNIEnv \<Rightarrow> cptr \<Rightarrow> nat \<Rightarrow> bytes" where
  "memRead env (DirectPtr b off) n = take n (drop (nat off) (directMem env b))"
| "memRead env (ArrayPtr arr off) n = take n (drop (nat off) (arrays env arr))"

record bufferView =
  outPosition :: int
  outJavaArray :: "jref option"
  outArray :: "jobject option"
  outBuffer :: cptr
  outBufferSize :: int

definition getByteBufferBuffer ::
  "JNIEnv \<Rightarrow> jobject \<Rightarrow> bool \<Rightarrow> (string + bufferView) \<times> JNIEnv" where
  "getByteBufferBuffer env javaBuffer newGlobalRef =
     (let position = getByteBufferPosition env javaBuffer in
      if ExceptionCheck env
      then (Inl ''ByteBuffer.position'', ExceptionClear (ExceptionDescribe env))
      else
      let limit = getByteBufferLimit env javaBuffer in
      if ExceptionCheck env
      then (Inl ''ByteBuffer.limit'', ExceptionClear (ExceptionDescribe env))
      else if bbDirect (buffers env javaBuffer)
      then (Inr \<lparr>outPosition = position, outJavaArray = None, outArray = None,
                 outBuffer = DirectPtr javaBuffer position,
                 outBufferSize = limit - position\<rparr>, env)
      else
      let hasArray = getByteBufferHasArray env javaBuffer in
      if ExceptionCheck env
      then (Inl ''ByteBuffer.hasArray'', ExceptionClear (ExceptionDescribe env))
      else if \<not> hasArray
      then (Inl ''!(GetDirectBufferAddress() || ByteBuffer.hasArray())'', env)
      else
      let arrayOffset = getByteBufferArrayOffset env javaBuffer in
      if ExceptionCheck env
      then (Inl ''ByteBuffer.arrayOffset'', ExceptionClear (ExceptionDescribe env))
      else
      (case getByteBufferArray env javaBuffer of
         None \<Rightarrow> (Inl ''ByteBuffer.array'', ExceptionClear (ExceptionDescribe env))
       | Some arr \<Rightarrow>
           (case (if newGlobalRef then NewGlobalRef env (Some arr)
                  else (Some (LocalRef arr), env)) of
              (None, env1) \<Rightarrow> (Inl ''NewGlobalRef'', env1)
            | (Some javaArray, env1) \<Rightarrow>
                (case GetByteArrayElements env1 arr of
                   (None, env2) \<Rightarrow>
                     (Inl ''GetByteArrayElements'',
                      if newGlobalRef then DeleteGlobalRef env2 (Some javaArray) else env2)
                 | (Some array, env2) \<Rightarrow>
                     (Inr \<lparr>outPosition = position, outJavaArray = Some javaArray,
                           outArray = Some array,
                           outBuffer = ArrayPtr arr (arrayOffset + position),
                           outBufferSize = limit - position\<rparr>, env2)))))"

definition Archive_readData ::
  "('n archive \<Rightarrow> nat \<Rightarrow> int \<times> bytes \<times> 'n archive) \<Rightarrow> 'n session \<Rightarrow> jobject \<Rightarrow> 'n session" where
  "Archive_readData archive_read_data s javaBuffer =
     (case getByteBufferBuffer (s_env s) javaBuffer False of
        (Inl errorMessage, env1) \<Rightarrow>
          s\<lparr>s_env := throwArchiveException env1 ARCHIVE_FATAL (Some errorMessage)\<rparr>
      | (Inr v, env1) \<Rightarrow>
          (case archive_read_data (s_archive s) (size_t (outBufferSize v)) of
             (ret, stored, a) \<Rightarrow>
               let env2 = memWrite env1 (outBuffer v) (take (size_t (outBufferSize v)) stored);
                   bytesRead = c_int ret;
                   env3 = (case outArray v of
                             Some array \<Rightarrow> ReleaseByteArrayElements env2 array 0
                           | None \<Rightarrow> env2)
               in if bytesRead < 0
                  then s\<lparr>s_env := throwArchiveExceptionFromError env3 a, s_archive := a\<rparr>
                  else
                    let newPosition = c_int (outPosition v + bytesRead);
                        env4 = setByteBufferPosition env3 javaBuffer newPosition
                    in if ExceptionCheck env4
                       then s\<lparr>s_env := throwArchiveException env4 ARCHIVE_FATAL
                                          (Some ''ByteBuffer.position()''),
                              s_archive := a\<rparr>
                       else s\<lparr>s_env := env4, s_archive := a\<rparr>))"
  \<comment> \<open>\<open>archive_read_data a size\<close> returns the C return value and the bytes the library
      stored at the start of the buffer it was given\<close>

definition Archive_seekData ::
  "('n archive \<Rightarrow> int \<Rightarrow> int \<Rightarrow> int \<times> 'n archive) \<Rightarrow> 'n session \<Rightarrow> int \<Rightarrow> int \<Rightarrow>
     int \<times> 'n session" where
  "Archive_seekData archive_seek_data s offset whence =
     (case archive_seek_data (s_archive s) offset whence of
        (position, a) \<Rightarrow>
          if position < 0
          then (position,
                s\<lparr>s_env := throwArchiveExceptionFromError (s_env s) a, s_archive := a\<rparr>)
          else (position, s\<lparr>s_archive := a\<rparr>))"

definition Archive_writeData ::
  "('n archive \<Rightarrow> bytes \<Rightarrow> int \<times> 'n archive) \<Rightarrow> 'n session \<Rightarrow> jobject \<Rightarrow> 'n session" where
  "Archive_writeData archive_write_data s javaBuffer =
     (case getByteBufferBuffer (s_env s) javaBuffer False of
        (Inl errorMessage, env1) \<Rightarrow>
          s\<lparr>s_env := throwArchiveException env1 ARCHIVE_FATAL (Some errorMessage)\<rparr>
      | (Inr v, env1) \<Rightarrow>
          (case archive_write_data (s_archive s)
                  (memRead env1 (outBuffer v) (size_t (outBufferSize v))) of
             (ret, a) \<Rightarrow>
               let bytesWritten = c_int ret;
                   env3 = (case outArray v of
                             Some array \<Rightarrow> ReleaseByteArrayElements env1 array JNI_ABORT
                           | None \<Rightarrow> env1)
               in if bytesWritten < 0
                  then s\<lparr>s_env := throwArchiveExceptionFromError env3 a, s_archive := a\<rparr>
                  else
                    let newPosition = c_int (outPosition v + bytesWritten);
                        env4 = setByteBufferPosition env3 javaBuffer newPosition
                    in if ExceptionCheck env4
                       then s\<lparr>s_env := throwArchiveException env4 ARCHIVE_FATAL
                                          (Some ''ByteBuffer.position()''),
                              s_archive := a\<rparr>
                       else s\<lparr>s_env := env4, s_archive := a\<rparr>))"
  \<comment> \<open>\<open>archive_write_data a data\<close> is given the bytes at the \<^verbatim>\<open>const void *\<close> it receives\<close>

definition bufferWF :: "ByteBuffer \<Rightarrow> bool" where
  "bufferWF b =
     (- 1 \<le> bbMark b \<and> bbMark b \<le> bbPosition b \<and> 0 \<le> bbPosition b \<and>
      bbPosition b \<le> bbLimit b \<and> bbLimit b \<le> bbCapacity b \<and> bbCapacity b < 2 ^ 31)"
  \<comment> \<open>the invariant of \<^verbatim>\<open>java.nio.Buffer\<close>: mark \<open>\<le>\<close> position \<open>\<le>\<close> limit \<open>\<le>\<close> capacity\<close>

definition remainingBytes :: "JNIEnv \<Rightarrow> jobject \<Rightarrow> bytes" where
  "remainingBytes env javaBuffer =
     (let b = buffers env javaBuffer; n = nat (bbLimit b - bbPosition b) in
      if bbDirect b then take n (drop (nat (bbPosition b)) (directMem env javaBuffer))
      else take n (drop (nat (bbArrayOffset b + bbPosition b)) (arrays env (bbArray b))))"
  \<comment> \<open>the bytes between a buffer's position and its limit\<close>

section \<open>Exceptions of Java callbacks\<close>

definition isArchiveException :: "throwable \<Rightarrow> bool" where
  "isArchiveException throwable = thIsArchive throwable"

definition getArchiveExceptionCode :: "throwable \<Rightarrow> int" where
  "getArchiveExceptionCode exception = thCode exception"

definition getThrowableMessage :: "throwable \<Rightarrow> string option" where
  "getThrowableMessage exception = thMessage exception"

definition setArchiveErrorFromException ::
  "JNIEnv \<Rightarrow> 'n archive \<Rightarrow> bool \<times> JNIEnv \<times> 'n archive" where
  "setArchiveErrorFromException env a =
     (case pending env of
        None \<Rightarrow> (False, env, a)
      | Some throwable \<Rightarrow>
          let env1 = ExceptionClear env;
              errorCode = (if isArchiveException throwable
                           then getArchiveExceptionCode throwable else ARCHIVE_FATAL);
              javaErrorMessage = getThrowableMessage throwable;
              (errorMessage, env2) =
                (case javaErrorMessage of
                   None \<Rightarrow> (None, ExceptionClear (ExceptionDescribe env1))
                 | Some jm \<Rightarrow>
                     (case GetStringUTFChars env1 jm of
                        (None, e) \<Rightarrow> (None, ExceptionClear (ExceptionDescribe e))
                      | (Some m, e) \<Rightarrow> (Some m, e)))
          in (True, env2, archive_set_error a errorCode errorMessage))"

definition PushLocalFrame :: "JNIEnv \<Rightarrow> int \<times> JNIEnv" where
  "PushLocalFrame env =
     (if allocOk env then (0, allocNext env)
      else (- 1, Throw (allocNext env) OutOfMemoryError))"

definition callArchiveOpenCallbackOnOpen ::
  "JNIEnv \<Rightarrow> jref option \<Rightarrow> throwable option \<Rightarrow> JNIEnv" where
  "callArchiveOpenCallbackOnOpen env callback onOpen =
     (let env1 = env\<lparr>upcalls := upcalls env @ [OnOpen callback]\<rparr> in
      case onOpen of None \<Rightarrow> env1 | Some t \<Rightarrow> Throw env1 t)"
  \<comment> \<open>\<open>onOpen\<close> is what the Java method does: return (\<open>None\<close>) or throw\<close>

definition archiveOpenCallback :: "throwable option \<Rightarrow> 'n session \<Rightarrow> int \<times> 'n session" where
  "archiveOpenCallback onOpen s =
     (case PushLocalFrame (s_env s) of
        (rc, env1) \<Rightarrow>
          if rc \<noteq> 0
          then (ARCHIVE_FATAL,
                s\<lparr>s_env := env1,
                  s_archive := archive_set_error (s_archive s) ARCHIVE_FATAL
                                 (Some ''PushLocalFrame'')\<rparr>)
          else
            let callback = openCallback (s_jniData s) in
            (case setArchiveErrorFromException
                    (callArchiveOpenCallbackOnOpen env1 callback onOpen) (s_archive s) of
               (True, env2, a) \<Rightarrow> (ARCHIVE_FATAL, s\<lparr>s_env := env2, s_archive := a\<rparr>)
             | (False, env2, a) \<Rightarrow> (ARCHIVE_OK, s\<lparr>s_env := env2, s_archive := a\<rparr>)))"

section \<open>Strings from byte arrays\<close>

definition malloc :: "JNIEnv \<Rightarrow> nat option \<times> JNIEnv" where
  "malloc env =
     (if allocOk env
      then (Some (nextBlock env),
            (allocNext env)\<lparr>mallocBlocks := insert (nextBlock env) (mallocBlocks env),
                             nextBlock := Suc (nextBlock env)\<rparr>)
      else (None, allocNext env))"

definition mallocStringFromBytes :: "JNIEnv \<Rightarrow> jobject option \<Rightarrow> cstring option \<times> JNIEnv" where
  "mallocStringFromBytes env javaBytes =
     (case javaBytes of
        None \<Rightarrow> (None, env)
      | Some arr \<Rightarrow>
          let env1 = env\<lparr>pinned := arr # pinned env\<rparr>;
              bytes = arrays env1 arr
          in case malloc env1 of
               (None, env2) \<Rightarrow> (None, env2)
             | (Some block, env2) \<Rightarrow>
                 (Some (CString block bytes), ReleaseByteArrayElements env2 arr JNI_ABORT))"
  \<comment> \<open>the source uses the result of this \<^verbatim>\<open>GetByteArrayElements\<close> unchecked, so it is taken
      to succeed; when \<^verbatim>\<open>malloc\<close> fails the elements stay held\<close>

definition c_string :: "bytes \<Rightarrow> bytes" where
  "c_string bs = takeWhile (\<lambda>c. c \<noteq> CHR 0x00) bs"
  \<comment> \<open>the string a C function reads at a \<^verbatim>\<open>char *\<close>: the characters before the first NUL\<close>

definition c_str :: "cstring \<Rightarrow> bytes" where
  "c_str p = c_string (csChars p)"
  \<comment> \<open>\<^verbatim>\<open>mallocStringFromBytes\<close> copies every byte of the array and appends a NUL, so a zero
      byte inside the array ends the string early\<close>

definition Archive_readOpenFileName ::
  "('n archive \<Rightarrow> bytes option \<Rightarrow> nat \<Rightarrow> int \<times> 'n archive) \<Rightarrow> 'n session \<Rightarrow>
     jobject option \<Rightarrow> int \<Rightarrow> 'n session" where
  "Archive_readOpenFileName archive_read_open_filename s javaFileName blockSize =
     (case mallocStringFromBytes (s_env s) javaFileName of
        (fileName, env1) \<Rightarrow>
          if javaFileName \<noteq> None \<and> fileName = None
          then s\<lparr>s_env := throwArchiveException env1 ARCHIVE_FATAL
                             (Some ''mallocStringFromBytes'')\<rparr>
          else
            (case archive_read_open_filename (s_archive s) (map_option c_str fileName)
                    (size_t blockSize) of
               (errorCode, a) \<Rightarrow>
                 let env2 = free env1 fileName in
                 if errorCode \<noteq> 0
                 then s\<lparr>s_env := throwArchiveExceptionFromError env2 a, s_archive := a\<rparr>
                 else s\<lparr>s_env := env2, s_archive := a\<rparr>))"
  \<comment> \<open>\<^verbatim>\<open>blockSize\<close> is a \<^verbatim>\<open>jlong\<close>, converted to the \<^verbatim>\<open>size_t\<close> parameter at the call\<close>

definition Archive_readAddPassphrase ::
  "('n archive \<Rightarrow> bytes option \<Rightarrow> int \<times> 'n archive) \<Rightarrow> 'n session \<Rightarrow> jobject option \<Rightarrow>
     'n session" where
  "Archive_readAddPassphrase archive_read_add_passphrase s javaPassphrase =
     (case mallocStringFromBytes (s_env s) javaPassphrase of
        (passphrase0, env1) \<Rightarrow>
          if javaPassphrase \<noteq> None \<and> passphrase0 = None
          then s\<lparr>s_env := throwArchiveException env1 ARCHIVE_FATAL
                             (Some ''mallocStringFromBytes'')\<rparr>
          else
            (case archive_read_add_passphrase (s_archive s) (map_option c_str passphrase0) of
               (errorCode, a) \<Rightarrow>
                 let env2 = free env1 passphrase0 in
                 if errorCode \<noteq> 0
                 then s\<lparr>s_env := throwArchiveExceptionFromError env2 a, s_archive := a\<rparr>
                 else s\<lparr>s_env := env2, s_archive := a\<rparr>))"

definition Archive_readSetOptions ::
  "('n archive \<Rightarrow> bytes option \<Rightarrow> int \<times> 'n archive) \<Rightarrow> 'n session \<Rightarrow> jobject option \<Rightarrow>
     'n session" where
  "Archive_readSetOptions archive_read_set_options s javaOptions =
     (case mallocStringFromBytes (s_env s) javaOptions of
        (options, env1) \<Rightarrow>
          if javaOptions \<noteq> None \<and> options = None
          then s\<lparr>s_env := throwArchiveException env1 ARCHIVE_FATAL
                             (Some ''mallocStringFromBytes'')\<rparr>
          else
            (case archive_read_set_options (s_archive s) (map_option c_str options) of
               (errorCode, a) \<Rightarrow>
                 let env2 = free env1 options in
                 if errorCode \<noteq> 0
                 then s\<lparr>s_env := throwArchiveExceptionFromError env2 a, s_archive := a\<rparr>
                 else s\<lparr>s_env := env2, s_archive := a\<rparr>))"

definition ArchiveEntry_setPathname ::
  "('e \<Rightarrow> bytes option \<Rightarrow> 'e) \<Rightarrow> JNIEnv \<Rightarrow> 'e \<Rightarrow> jobject option \<Rightarrow> JNIEnv \<times> 'e" where
  "ArchiveEntry_setPathname archive_entry_set_pathname env entry javaPathname =
     (case mallocStringFromBytes env javaPathname of
        (pathname, env1) \<Rightarrow>
          (free env1 pathname,
           archive_entry_set_pathname entry (map_option c_str pathname)))"

section \<open>The passphrase callback\<close>

definition callArchivePassphraseCallbackOnPassphrase ::
  "JNIEnv \<Rightarrow> jref option \<Rightarrow> throwable + jobject option \<Rightarrow> jobject option \<times> JNIEnv" where
  "callArchivePassphraseCallbackOnPassphrase env callback onPassphrase =
     (let env1 = env\<lparr>upcalls := upcalls env @ [OnPassphrase callback]\<rparr> in
      case onPassphrase of
        Inl t \<Rightarrow> (None, Throw env1 t)
      | Inr javaPassphrase \<Rightarrow> (javaPassphrase, env1))"
  \<comment> \<open>\<open>onPassphrase\<close> is what the Java method does: throw, or return a \<^verbatim>\<open>byte[]\<close> or
      \<^verbatim>\<open>null\<close>\<close>

definition archivePassphraseCallback ::
  "throwable + jobject option \<Rightarrow> 'n session \<Rightarrow> cstring option \<times> 'n session" where
  "archivePassphraseCallback onPassphrase s =
     (case PushLocalFrame (s_env s) of
        (rc, env1) \<Rightarrow>
          if rc \<noteq> 0
          then (None,
                s\<lparr>s_env := env1,
                  s_archive := archive_set_error (s_archive s) ARCHIVE_FATAL
                                 (Some ''PushLocalFrame'')\<rparr>)
          else
            let env2 = free env1 (passphrase (s_jniData s));
                jniData1 = (s_jniData s)\<lparr>passphrase := None\<rparr>;
                callback = passphraseCallback jniData1
            in case callArchivePassphraseCallbackOnPassphrase env2 callback onPassphrase of
                 (javaPassphrase, env3) \<Rightarrow>
                   (case setArchiveErrorFromException env3 (s_archive s) of
                      (True, env4, a) \<Rightarrow>
                        (None, s\<lparr>s_env := env4, s_jniData := jniData1, s_archive := a\<rparr>)
                    | (False, env4, a) \<Rightarrow>
                        (case mallocStringFromBytes env4 javaPassphrase of
                           (passphrase1, env5) \<Rightarrow>
                             if javaPassphrase \<noteq> None \<and> passphrase1 = None
                             then (None,
                                   s\<lparr>s_env := env5, s_jniData := jniData1,
                                     s_archive := archive_set_error a ARCHIVE_FATAL
                                                    (Some ''mallocStringFromBytes'')\<rparr>)
                             else (passphrase1,
                                   s\<lparr>s_env := env5,
                                     s_jniData := jniData1\<lparr>passphrase := passphrase1\<rparr>,
                                     s_archive := a\<rparr>))))"

definition Archive_readSetPassphraseCallback ::
  "('n archive \<Rightarrow> jref option \<Rightarrow> bool \<Rightarrow> int \<times> 'n archive) \<Rightarrow> 'n session \<Rightarrow>
     jobject option \<Rightarrow> jobject option \<Rightarrow> 'n session" where
  "Archive_readSetPassphraseCallback archive_read_set_passphrase_callback s clientData
       javaCallback =
     (case NewGlobalRef (s_env s) clientData of
        (clientDataRef, env1) \<Rightarrow>
          if clientData \<noteq> None \<and> clientDataRef = None
          then s\<lparr>s_env := throwArchiveException env1 ARCHIVE_FATAL (Some ''NewGlobalRef'')\<rparr>
          else
            (case NewGlobalRef env1 javaCallback of
               (javaCallbackRef, env2) \<Rightarrow>
                 if javaCallback \<noteq> None \<and> javaCallbackRef = None
                 then s\<lparr>s_env := throwArchiveException (DeleteGlobalRef env2 clientDataRef)
                                    ARCHIVE_FATAL (Some ''NewGlobalRef'')\<rparr>
                 else
                   (case archive_read_set_passphrase_callback (s_archive s) clientDataRef
                           (javaCallbackRef \<noteq> None) of
                      (errorCode, a) \<Rightarrow>
                        if errorCode \<noteq> 0
                        then s\<lparr>s_env := throwArchiveExceptionFromError
                                           (DeleteGlobalRef (DeleteGlobalRef env2 javaCallbackRef)
                                              clientDataRef) a,
                               s_archive := a\<rparr>
                        else
                          s\<lparr>s_env := DeleteGlobalRef
                                       (DeleteGlobalRef env2
                                          (passphraseClientData (s_jniData s)))
                                       (passphraseCallback (s_jniData s)),
                            s_jniData := (s_jniData s)
                               \<lparr>passphraseClientData := clientDataRef,
                                 passphraseCallback := javaCallbackRef\<rparr>,
                            s_archive := a\<rparr>)))"
  \<comment> \<open>the flag handed to the library says whether \<^verbatim>\<open>archivePassphraseCallback\<close> or
      \<^verbatim>\<open>NULL\<close> is registered\<close>

section \<open>Callback setters\<close>

definition Archive_readSetOpenCallback ::
  "('n archive \<Rightarrow> bool \<Rightarrow> int \<times> 'n archive) \<Rightarrow> 'n session \<Rightarrow> jobject option \<Rightarrow> 'n session" where
  "Archive_readSetOpenCallback archive_read_set_open_callback s javaCallback =
     (case NewGlobalRef (s_env s) javaCallback of
        (javaCallbackRef, env1) \<Rightarrow>
          if javaCallback \<noteq> None \<and> javaCallbackRef = None
          then s\<lparr>s_env := throwArchiveException env1 ARCHIVE_FATAL (Some ''NewGlobalRef'')\<rparr>
          else
            (case archive_read_set_open_callback (s_archive s) (javaCallbackRef \<noteq> None) of
               (errorCode, a) \<Rightarrow>
                 if errorCode \<noteq> 0
                 then s\<lparr>s_env := throwArchiveExceptionFromError
                                    (DeleteGlobalRef env1 javaCallbackRef) a,
                        s_archive := a\<rparr>
                 else s\<lparr>s_env := DeleteGlobalRef env1 (openCallback (s_jniData s)),
                        s_jniData := (s_jniData s)\<lparr>openCallback := javaCallbackRef\<rparr>,
                        s_archive := a\<rparr>))"

definition Archive_readSetReadCallback ::
  "('n archive \<Rightarrow> bool \<Rightarrow> int \<times> 'n archive) \<Rightarrow> 'n session \<Rightarrow> jobject option \<Rightarrow> 'n session" where
  "Archive_readSetReadCallback archive_read_set_read_callback s javaCallback =
     (case NewGlobalRef (s_env s) javaCallback of
        (javaCallbackRef, env1) \<Rightarrow>
          if javaCallback \<noteq> None \<and> javaCallbackRef = None
          then s\<lparr>s_env := throwArchiveException env1 ARCHIVE_FATAL (Some ''NewGlobalRef'')\<rparr>
          else
            (case archive_read_set_read_callback (s_archive s) (javaCallbackRef \<noteq> None) of
               (errorCode, a) \<Rightarrow>
                 if errorCode \<noteq> 0
                 then s\<lparr>s_env := throwArchiveExceptionFromError
                                    (DeleteGlobalRef env1 javaCallbackRef) a,
                        s_archive := a\<rparr>
                 else s\<lparr>s_env := DeleteGlobalRef env1 (readCallback (s_jniData s)),
                        s_jniData := (s_jniData s)\<lparr>readCallback := javaCallbackRef\<rparr>,
                        s_archive := a\<rparr>))"

definition Archive_readSetSwitchCallback ::
  "('n archive \<Rightarrow> bool \<Rightarrow> int \<times> 'n archive) \<Rightarrow> 'n session \<Rightarrow> jobject option \<Rightarrow> 'n session" where
  "Archive_readSetSwitchCallback archive_read_set_switch_callback s javaCallback =
     (case NewGlobalRef (s_env s) javaCallback of
        (javaCallbackRef, env1) \<Rightarrow>
          if javaCallback \<noteq> None \<and> javaCallbackRef = None
          then s\<lparr>s_env := throwArchiveException env1 ARCHIVE_FATAL (Some ''NewGlobalRef'')\<rparr>
          else
            (case archive_read_set_switch_callback (s_archive s) (javaCallbackRef \<noteq> None) of
               (errorCode, a) \<Rightarrow>
                 if errorCode \<noteq> 0
                 then s\<lparr>s_env := throwArchiveExceptionFromError
                                    (DeleteGlobalRef env1 javaCallbackRef) a,
                        s_archive := a\<rparr>
                 else s\<lparr>s_env := DeleteGlobalRef env1 (switchCallback (s_jniData s)),
                        s_jniData := (s_jniData s)\<lparr>switchCallback := javaCallbackRef\<rparr>,
                        s_archive := a\<rparr>))"

fun refIds :: "jref option \<Rightarrow> nat set" where
  "refIds (Some (GlobalRef i obj)) = {i}"
| "refIds (Some (LocalRef obj)) = {}"
| "refIds None = {}"

fun refIdList :: "jref option \<Rightarrow> nat list" where
  "refIdList (Some (GlobalRef i obj)) = [i]"
| "refIdList (Some (LocalRef obj)) = []"
| "refIdList None = []"

definition callbackSlots :: "ArchiveJniData \<Rightarrow> jref option list" where
  "callbackSlots jd =
     [readCallback jd, skipCallback jd, seekCallback jd, writeCallback jd, openCallback jd,
      closeCallback jd, freeCallback jd, switchCallback jd, passphraseCallback jd]"

definition slotIds :: "jref option list \<Rightarrow> nat list" where
  "slotIds slots = concat (map refIdList slots)"
  \<comment> \<open>the ids of the global references in a list of slots, slot by slot\<close>

definition slotsOwnOneEach :: "JNIEnv \<Rightarrow> ArchiveJniData \<Rightarrow> bool" where
  "slotsOwnOneEach env jd =
     (distinct (slotIds (callbackSlots jd)) \<and>
      set (slotIds (callbackSlots jd)) \<subseteq> globalRefs env \<and>
      globalRefs env \<subseteq> {i. i < nextRef env})"
  \<comment> \<open>the global reference of a callback slot is live and is held by no other slot;
      reference ids in use lie below the next one to be handed out\<close>

definition setterOutcome ::
  "(ArchiveJniData \<Rightarrow> jref option) \<Rightarrow> (jref option \<Rightarrow> ArchiveJniData \<Rightarrow> ArchiveJniData) \<Rightarrow>
     'n session \<Rightarrow> jobject option \<Rightarrow> int \<Rightarrow> 'n session \<Rightarrow> bool" where
  "setterOutcome slot put s javaCallback errorCode s' =
     (let new = fst (NewGlobalRef (s_env s) javaCallback) in
      slotsOwnOneEach (s_env s') (s_jniData s') \<and>
      (if errorCode \<noteq> 0 \<or> (javaCallback \<noteq> None \<and> new = None)
       then s_jniData s' = s_jniData s \<and> globalRefs (s_env s') = globalRefs (s_env s) \<and>
            pending (s_env s') \<noteq> None
       else s_jniData s' = put new (s_jniData s) \<and>
            globalRefs (s_env s') = globalRefs (s_env s) - refIds (slot (s_jniData s)) \<union> refIds new \<and>
            pending (s_env s') = pending (s_env s)))"
  \<comment> \<open>what a callback setter leaves behind, for the given slot and the code the
      library's set call returned: on failure (of the set call, or of creating the new
      reference) the data and the live references as before and an exception pending; on
      success the new reference in the slot, the old one deleted, nothing else changed\<close>

section \<open>Closing\<close>

text \<open>
  \<^verbatim>\<open>ArchiveJniData\<close> outlives the native call that filled it, and a local reference dies
  when the call that created it returns. \<^verbatim>\<open>readOpenMemory\<close> and \<^verbatim>\<open>writeOpenMemory\<close>
  keep in \<^verbatim>\<open>openMemoryJavaArray\<close> the local reference that \<^verbatim>\<open>getByteBufferBuffer\<close> returns
  without \<^verbatim>\<open>newGlobalRef\<close>; the read callback and \<^verbatim>\<open>writeOpenMemory\<close> keep global
  references in \<^verbatim>\<open>readJavaArray\<close> and \<^verbatim>\<open>writeOpenMemoryJavaBuffer\<close>. \<^verbatim>\<open>closeArchiveJniData\<close>
  runs at the start of a later native call (\<^verbatim>\<open>readClose\<close>, \<^verbatim>\<open>writeClose\<close>) and hands the
  kept references to \<^verbatim>\<open>ReleaseByteArrayElements\<close>, \<^verbatim>\<open>ByteBuffer.position\<close> and
  \<^verbatim>\<open>DeleteGlobalRef\<close>. JNI defines no behaviour for a call on a dead reference: that
  outcome is the value \<open>Inl DeadReference\<close>.
\<close>

datatype fault = DeadReference

definition deadRef :: "jref option \<Rightarrow> bool" where
  "deadRef r = (case r of Some (LocalRef obj) \<Rightarrow> True | _ \<Rightarrow> False)"
  \<comment> \<open>of a reference kept in \<^verbatim>\<open>ArchiveJniData\<close> since an earlier native call\<close>

definition closeArchiveJniData ::
  "JNIEnv \<Rightarrow> ArchiveJniData \<Rightarrow> fault + JNIEnv \<times> ArchiveJniData" where
  "closeArchiveJniData env jniData =
     (if deadRef (openMemoryJavaArray jniData) \<or> deadRef (writeOpenMemoryJavaBuffer jniData)
         \<or> deadRef (readJavaArray jniData)
      then Inl DeadReference
      else
      let (env1, jd1) =
            (case openMemoryArray jniData of
               Some elems \<Rightarrow>
                 (ReleaseByteArrayElements env elems (openMemoryArrayReleaseMode jniData),
                  jniData\<lparr>openMemoryArray := None, openMemoryArrayReleaseMode := 0\<rparr>)
             | None \<Rightarrow> (env, jniData));
          env2 = DeleteGlobalRef env1 (openMemoryJavaArray jd1);
          jd2 = jd1\<lparr>openMemoryJavaArray := None\<rparr>;
          (env3, jd3) =
            (case writeOpenMemoryJavaBuffer jd2 of
               Some buf \<Rightarrow>
                 let e1 = setByteBufferPosition env2 (referent buf)
                            (c_int (writeOpenMemoryPosition jd2
                                      + c_int (int (writeOpenMemoryUsed jd2))));
                     e2 = (if ExceptionCheck e1
                           then throwArchiveException e1 ARCHIVE_FATAL
                                  (Some ''ByteBuffer.position()'')
                           else e1)
                 in (DeleteGlobalRef e2 (Some buf),
                     jd2\<lparr>writeOpenMemoryPosition := 0, writeOpenMemoryUsed := 0,
                         writeOpenMemoryJavaBuffer := None\<rparr>)
             | None \<Rightarrow> (env2, jd2));
          (env4, jd4) =
            (case readArray jd3 of
               Some elems \<Rightarrow>
                 (ReleaseByteArrayElements env3 elems JNI_ABORT, jd3\<lparr>readArray := None\<rparr>)
             | None \<Rightarrow> (env3, jd3));
          env5 = DeleteGlobalRef env4 (readJavaArray jd4);
          jd5 = jd4\<lparr>readJavaArray := None\<rparr>;
          env6 = free env5 (passphrase jd5)
      in Inr (env6, jd5\<lparr>passphrase := None\<rparr>))"
  \<comment> \<open>the three kept references are the array arguments of the two
      \<^verbatim>\<open>ReleaseByteArrayElements\<close> calls, the receiver of \<^verbatim>\<open>position\<close> and the
      arguments of the three \<^verbatim>\<open>DeleteGlobalRef\<close> calls\<close>

definition Archive_readClose ::
  "('n archive \<Rightarrow> int \<times> 'n archive) \<Rightarrow> 'n session \<Rightarrow> fault + 'n session" where
  "Archive_readClose archive_read_close s =
     (case closeArchiveJniData (s_env s) (s_jniData s) of
        Inl f \<Rightarrow> Inl f
      | Inr (env1, jd1) \<Rightarrow>
          (case archive_read_close (s_archive s) of
             (errorCode, a) \<Rightarrow>
               if errorCode \<noteq> 0
               then Inr (s\<lparr>s_env := throwArchiveExceptionFromError env1 a, s_jniData := jd1,
                           s_archive := a\<rparr>)
               else Inr (s\<lparr>s_env := env1, s_jniData := jd1, s_archive := a\<rparr>)))"

definition unpin :: "jobject option \<Rightarrow> jobject list \<Rightarrow> jobject list" where
  "unpin elems ps = (case elems of Some arr \<Rightarrow> remove1 arr ps | None \<Rightarrow> ps)"

definition blockOf :: "cstring option \<Rightarrow> nat set" where
  "blockOf p = (case p of Some c \<Rightarrow> {csBlock c} | None \<Rightarrow> {})"

section \<open>Sessions to compute with\<close>

text \<open>
  \<^verbatim>\<open>mallocArchiveJniData\<close> allocates the binding's data with \<^verbatim>\<open>calloc\<close>: every field is
  zero. The runtime of the examples holds one heap \<^verbatim>\<open>ByteBuffer\<close> (object 3, position 2,
  limit 6, capacity 8) over the array object 2, and the array object 7 with the bytes of
  a passphrase. The native functions of the examples are stand-ins for the library, each
  described where it is defined.
\<close>

definition calloc_ArchiveJniData :: ArchiveJniData where
  "calloc_ArchiveJniData =
     \<lparr>openMemoryJavaArray = None, openMemoryArray = None, openMemoryArrayReleaseMode = 0,
      writeOpenMemoryJavaBuffer = None, writeOpenMemoryPosition = 0, writeOpenMemoryUsed = 0,
      hasReadClientData = False, writeClientData = None, readCallback = None,
      readJavaArray = None, readArray = None, skipCallback = None, seekCallback = None,
      writeCallback = None, openCallback = None, closeCallback = None, freeCallback = None,
      switchCallback = None, passphraseClientData = None, passphraseCallback = None,
      passphrase = None\<rparr>"

definition noBuffer :: ByteBuffer where
  "noBuffer = \<lparr>bbMark = - 1, bbPosition = 0, bbLimit = 0, bbCapacity = 0, bbDirect = False,
               bbHasArray = False, bbArray = 0, bbArrayOffset = 0\<rparr>"

definition heapBuffer :: ByteBuffer where
  "heapBuffer = \<lparr>bbMark = - 1, bbPosition = 2, bbLimit = 6, bbCapacity = 8, bbDirect = False,
                 bbHasArray = True, bbArray = 2, bbArrayOffset = 0\<rparr>"

definition idleEnv :: JNIEnv where
  "idleEnv =
     \<lparr>pending = None, globalRefs = {}, nextRef = 0, pinned = [], released = [],
      buffers = (\<lambda>obj. if obj = 3 then heapBuffer else noBuffer),
      arrays = (\<lambda>obj. if obj = 2 then ''abcdefgh'' else if obj = 7 then ''secret'' else []),
      directMem = (\<lambda>obj. []), mallocBlocks = {}, nextBlock = 0, allocTape = [],
      upcalls = []\<rparr>"

definition newSession :: "'n \<Rightarrow> 'n session" where
  "newSession n =
     \<lparr>s_env = idleEnv, s_jniData = calloc_ArchiveJniData,
      s_archive = \<lparr>archive_errno = 0, archive_error_string = None, read_callback_data = [],
                   impl = n\<rparr>\<rparr>"

definition reader_eof_then_fatal ::
  "nat archive \<Rightarrow> int \<times> archive_entry option \<times> nat archive" where
  "reader_eof_then_fatal a =
     (if impl a = 0 then (ARCHIVE_EOF, None, a\<lparr>impl := 1\<rparr>)
      else (ARCHIVE_FATAL, None,
            archive_set_error a (- 1) (Some ''archive_read_next_header called at eof'')))"
  \<comment> \<open>a reader positioned after the last entry that reports the end of the archive once
      and refuses every later call\<close>

definition writer_accepting ::
  "nat archive \<Rightarrow> nat \<Rightarrow> archive_entry \<Rightarrow> int \<times> nat archive \<times> nat" where
  "writer_accepting a used entry = (ARCHIVE_OK, a\<lparr>impl := Suc (impl a)\<rparr>, used)"
  \<comment> \<open>a writer that accepts every header and counts them\<close>

definition finish_refusing :: "nat archive \<Rightarrow> nat \<Rightarrow> int \<times> nat archive \<times> nat" where
  "finish_refusing a used =
     (ARCHIVE_FATAL, archive_set_error a 28 (Some ''no space left''), used + 512)"
  \<comment> \<open>a finish that pads the entry into the memory sink and then reports an error\<close>

definition writer_rejecting ::
  "nat archive \<Rightarrow> nat \<Rightarrow> archive_entry \<Rightarrow> int \<times> nat archive \<times> nat" where
  "writer_rejecting a used entry =
     (ARCHIVE_FATAL, archive_set_error a (- 1) (Some ''archive_write_header refused''), used)"

definition sink3 :: "bytes archive \<Rightarrow> bytes \<Rightarrow> int \<times> bytes archive" where
  "sink3 a bs = (int (length (take 3 bs)), a\<lparr>impl := impl a @ take 3 bs\<rparr>)"
  \<comment> \<open>a writer that accepts at most three bytes per call and keeps what it accepted\<close>

definition source2 :: "bytes archive \<Rightarrow> nat \<Rightarrow> int \<times> bytes \<times> bytes archive" where
  "source2 a n =
     (int (length (take (min 2 n) (impl a))), take (min 2 n) (impl a),
      a\<lparr>impl := drop (min 2 n) (impl a)\<rparr>)"
  \<comment> \<open>a reader that hands out at most two bytes of its remaining entry data per call\<close>

definition seek_backwards :: "bytes archive \<Rightarrow> int \<Rightarrow> int \<Rightarrow> int \<times> bytes archive" where
  "seek_backwards a offset whence =
     (if offset < 0 then (ARCHIVE_FATAL, archive_set_error a 22 (Some ''negative offset''))
      else (offset, a))"

definition set_ok :: "nat archive \<Rightarrow> bool \<Rightarrow> int \<times> nat archive" where
  "set_ok a registered = (ARCHIVE_OK, a)"
  \<comment> \<open>a callback registration that succeeds\<close>

definition close_failing :: "nat archive \<Rightarrow> int \<times> nat archive" where
  "close_failing a = (ARCHIVE_FATAL, archive_set_error a 5 (Some ''close failed''))"

definition open_recording ::
  "bytes option archive \<Rightarrow> bytes option \<Rightarrow> nat \<Rightarrow> int \<times> bytes option archive" where
  "open_recording a fileName blockSize = (ARCHIVE_OK, a\<lparr>impl := fileName\<rparr>)"
  \<comment> \<open>an open that remembers the file name it was given\<close>

definition add_recording :: "bytes option archive \<Rightarrow> bytes option \<Rightarrow> int \<times> bytes option archive" where
  "add_recording a str = (ARCHIVE_OK, a\<lparr>impl := str\<rparr>)"

definition set_passphrase_ok :: "nat archive \<Rightarrow> jref option \<Rightarrow> bool \<Rightarrow> int \<times> nat archive" where
  "set_passphrase_ok a clientData registered = (ARCHIVE_OK, a)"

definition providerSession :: "nat session" where
  "providerSession =
     Archive_readSetPassphraseCallback set_passphrase_ok (newSession 0) None (Some 9)"
  \<comment> \<open>a fresh session after the Java object 9 was installed as passphrase callback\<close>

definition readerSession :: "nat session" where
  "readerSession = Archive_readSetReadCallback set_ok (newSession 0) (Some 5)"
  \<comment> \<open>a fresh session after the Java object 5 was installed as read callback\<close>

definition closingSession :: "nat session" where
  "closingSession =
     readerSession
       \<lparr>s_env := (s_env readerSession)
            \<lparr>globalRefs := {0, 1}, nextRef := 2, pinned := [2], mallocBlocks := {0},
             nextBlock := 1\<rparr>,
        s_jniData := (s_jniData readerSession)
            \<lparr>readJavaArray := Some (GlobalRef 1 2), readArray := Some 2,
             passphrase := Some (CString 0 ''secret'')\<rparr>\<rparr>"
  \<comment> \<open>the session with the read callback installed, while the library holds the elements
      of the array object 2 that the read callback handed it, and with a stored passphrase\<close>

definition set_failing :: "nat archive \<Rightarrow> bool \<Rightarrow> int \<times> nat archive" where
  "set_failing a registered =
     (ARCHIVE_FATAL, archive_set_error a (- 1) (Some ''archive is not new''))"
  \<comment> \<open>a callback registration that the library refuses\<close>

section \<open>Facts about raising\<close>

lemma allocNext_idle: "allocTape env = [] \<Longrightarrow> allocNext env = env"
  by (cases env) (simp add: allocNext_def)

lemma allocOk_idle: "allocTape env = [] \<Longrightarrow> allocOk env"
  by (simp add: allocOk_def)

lemma allocNext_fields [simp]:
  "pending (allocNext env) = pending env" "globalRefs (allocNext env) = globalRefs env"
  "nextRef (allocNext env) = nextRef env" "pinned (allocNext env) = pinned env"
  "released (allocNext env) = released env" "buffers (allocNext env) = buffers env"
  "arrays (allocNext env) = arrays env" "directMem (allocNext env) = directMem env"
  "mallocBlocks (allocNext env) = mallocBlocks env" "nextBlock (allocNext env) = nextBlock env"
  "upcalls (allocNext env) = upcalls env"
  by (simp_all add: allocNext_def)

lemma throwArchiveException_frame:
  "globalRefs (throwArchiveException env c m) = globalRefs env \<and>
   nextRef (throwArchiveException env c m) = nextRef env \<and>
   pinned (throwArchiveException env c m) = pinned env \<and>
   released (throwArchiveException env c m) = released env \<and>
   buffers (throwArchiveException env c m) = buffers env \<and>
   arrays (throwArchiveException env c m) = arrays env \<and>
   directMem (throwArchiveException env c m) = directMem env \<and>
   mallocBlocks (throwArchiveException env c m) = mallocBlocks env \<and>
   nextBlock (throwArchiveException env c m) = nextBlock env \<and>
   upcalls (throwArchiveException env c m) = upcalls env"
  by (simp add: throwArchiveException_def NewObject_ArchiveException_def NewStringUTF_def
      Throw_def ExceptionClear_def ExceptionDescribe_def Let_def
      split: option.splits)

lemma throwArchiveException_pending:
  "pending (throwArchiveException env code message) \<noteq> None"
  by (simp add: throwArchiveException_def NewObject_ArchiveException_def NewStringUTF_def
      Throw_def ExceptionClear_def ExceptionDescribe_def Let_def
      split: option.splits)

lemma throwArchiveException_ok:
  "allocTape env = [] \<Longrightarrow>
   throwArchiveException env code message =
     env\<lparr>pending := Some (Throwable True code message (pending env))\<rparr>"
  by (cases env)
     (simp add: throwArchiveException_def NewObject_ArchiveException_def NewStringUTF_def
      Throw_def ExceptionClear_def ExceptionDescribe_def Let_def allocOk_def allocNext_def
      split: option.splits)

section \<open>End of archive and failed header reads\<close>

text \<open>
  Claim C2, as the binding implements it. \<^verbatim>\<open>readNextHeader\<close> forwards to
  \<^verbatim>\<open>archive_read_next_header\<close> and maps its return code: \<^verbatim>\<open>ARCHIVE_EOF\<close> gives the null
  entry with no exception and nothing else changed; \<open>0\<close> gives the entry; every other code
  gives a pending \<^verbatim>\<open>ArchiveException\<close> with the handle's error number and text. So the end
  of the archive and a failed header read are told apart by the exception. The binding
  keeps no end-of-archive state: a repeated call asks the library again, and yields the
  end-of-archive signal again exactly when the library answers \<^verbatim>\<open>ARCHIVE_EOF\<close> again.
\<close>

theorem readNextHeader_signals:
  assumes "archive_read_next_header (s_archive s) = (errorCode, entry, a)"
      and "pending (s_env s) = None"
  shows "(errorCode = ARCHIVE_EOF \<longrightarrow>
            Archive_readNextHeader archive_read_next_header s = (None, s\<lparr>s_archive := a\<rparr>))
       \<and> (errorCode = 0 \<longrightarrow>
            Archive_readNextHeader archive_read_next_header s = (entry, s\<lparr>s_archive := a\<rparr>))
       \<and> (errorCode \<noteq> 0 \<and> errorCode \<noteq> ARCHIVE_EOF \<longrightarrow>
            fst (Archive_readNextHeader archive_read_next_header s) = None
          \<and> pending (s_env (snd (Archive_readNextHeader archive_read_next_header s))) \<noteq> None
          \<and> s_jniData (snd (Archive_readNextHeader archive_read_next_header s)) = s_jniData s
          \<and> s_archive (snd (Archive_readNextHeader archive_read_next_header s)) = a
          \<and> (allocTape (s_env s) = [] \<longrightarrow>
               pending (s_env (snd (Archive_readNextHeader archive_read_next_header s)))
                 = Some (Throwable True (archive_errno a) (archive_error_string a) None)))"
  using assms
  by (simp add: Archive_readNextHeader_def ARCHIVE_EOF_def throwArchiveExceptionFromError_def
      throwArchiveException_pending throwArchiveException_ok throwArchiveException_frame)

text \<open>The theorem at a reader that has reached the end of its archive.\<close>

theorem readNextHeader_signals_witness:
  "Archive_readNextHeader reader_eof_then_fatal (newSession 0)
     = (None, (newSession 0)\<lparr>s_archive := (s_archive (newSession 0))\<lparr>impl := 1\<rparr>\<rparr>)"
  using readNextHeader_signals [of reader_eof_then_fatal "newSession 0" ARCHIVE_EOF None
      "(s_archive (newSession 0))\<lparr>impl := 1\<rparr>"]
  by (simp add: reader_eof_then_fatal_def newSession_def idleEnv_def)

text \<open>
  The claim's last part fails for a library that answers the call after the end with an
  error: the first call returns null without an exception, the second call raises.
\<close>

theorem readNextHeader_repeat_counterexample:
  "jniReturn
     (s_env (snd (Archive_readNextHeader reader_eof_then_fatal (newSession 0))))
     (fst (Archive_readNextHeader reader_eof_then_fatal (newSession 0))) = Inr None
   \<and> jniReturn
     (s_env (snd (Archive_readNextHeader reader_eof_then_fatal
                    (snd (Archive_readNextHeader reader_eof_then_fatal (newSession 0))))))
     (fst (Archive_readNextHeader reader_eof_then_fatal
                    (snd (Archive_readNextHeader reader_eof_then_fatal (newSession 0)))))
     = Inl (Throwable True (- 1) (Some ''archive_read_next_header called at eof'') None)"
  by (simp add: Archive_readNextHeader_def reader_eof_then_fatal_def newSession_def idleEnv_def
      jniReturn_def ARCHIVE_EOF_def ARCHIVE_FATAL_def archive_set_error_def
      throwArchiveExceptionFromError_def throwArchiveException_ok)

section \<open>Writing headers\<close>

text \<open>
  Claim C3, as the binding implements it. \<^verbatim>\<open>writeHeader\<close> and \<^verbatim>\<open>writeFinishEntry\<close>
  perform no protocol check of their own: each call is forwarded to the library, the
  handle afterwards is the one the library left, and an exception is pending afterwards
  exactly when the library returned a non-zero code. With no allocation failure that
  exception is, for \<^verbatim>\<open>writeHeader\<close> and for \<^verbatim>\<open>writeFinishEntry\<close> alike, the
  \<^verbatim>\<open>ArchiveException\<close> carrying the handle's error number and text.
\<close>

theorem writeHeader_forwards:
  assumes "archive_write_header (s_archive s) (writeOpenMemoryUsed (s_jniData s)) entry
             = (errorCode, a, used)"
      and "archive_write_finish_entry (s_archive s) (writeOpenMemoryUsed (s_jniData s))
             = (errorCode', a', used')"
      and "pending (s_env s) = None"
  shows "s_archive (Archive_writeHeader archive_write_header s entry) = a
       \<and> (pending (s_env (Archive_writeHeader archive_write_header s entry)) \<noteq> None)
           = (errorCode \<noteq> 0)
       \<and> s_archive (Archive_writeFinishEntry archive_write_finish_entry s) = a'
       \<and> (pending (s_env (Archive_writeFinishEntry archive_write_finish_entry s)) \<noteq> None)
           = (errorCode' \<noteq> 0)
       \<and> (allocTape (s_env s) = [] \<longrightarrow>
            pending (s_env (Archive_writeHeader archive_write_header s entry)) =
              (if errorCode = 0 then None
               else Some (Throwable True (archive_errno a) (archive_error_string a) None))
          \<and> pending (s_env (Archive_writeFinishEntry archive_write_finish_entry s)) =
              (if errorCode' = 0 then None
               else Some (Throwable True (archive_errno a') (archive_error_string a') None)))"
proof -
  have raised: "\<exists>y. pending (throwArchiveException (s_env s) c m) = Some y" for c m
    using throwArchiveException_pending [of "s_env s" c m] by simp
  show ?thesis
    using assms
    by (simp add: Archive_writeHeader_def Archive_writeFinishEntry_def
        throwArchiveExceptionFromError_def raised throwArchiveException_ok)
qed

text \<open>
  The theorem at a writer that refuses the header, and at a finish that fails.
\<close>

theorem writeHeader_forwards_witness:
  "pending (s_env (Archive_writeHeader writer_rejecting (newSession 0) 4))
     = Some (Throwable True (- 1) (Some ''archive_write_header refused'') None)
   \<and> pending (s_env (Archive_writeFinishEntry finish_refusing (newSession 0)))
     = Some (Throwable True 28 (Some ''no space left'') None)
   \<and> archive_errno (s_archive (Archive_writeFinishEntry finish_refusing (newSession 0)))
     = 28"
  using writeHeader_forwards [of writer_rejecting "newSession 0" 4 ARCHIVE_FATAL
      "archive_set_error (s_archive (newSession 0)) (- 1) (Some ''archive_write_header refused'')"
      0 finish_refusing ARCHIVE_FATAL
      "archive_set_error (s_archive (newSession 0)) 28 (Some ''no space left'')" 512]
  by (simp add: writer_rejecting_def finish_refusing_def newSession_def idleEnv_def
      ARCHIVE_FATAL_def archive_set_error_def calloc_ArchiveJniData_def)

text \<open>
  Two \<^verbatim>\<open>writeHeader\<close> calls with no \<^verbatim>\<open>writeFinishEntry\<close> between them, on a library that
  accepts both: no exception is raised, and both headers reached the library.
\<close>

theorem writeHeader_twice_counterexample:
  "pending (s_env (Archive_writeHeader writer_accepting
                     (Archive_writeHeader writer_accepting (newSession 0) 4) 5)) = None
   \<and> impl (s_archive (Archive_writeHeader writer_accepting
                     (Archive_writeHeader writer_accepting (newSession 0) 4) 5)) = 2"
  by (simp add: Archive_writeHeader_def writer_accepting_def newSession_def idleEnv_def
      ARCHIVE_OK_def)

section \<open>Buffers handed to the library\<close>

lemma c_int_id: "- (2 ^ 31) \<le> x \<Longrightarrow> x < 2 ^ 31 \<Longrightarrow> c_int x = x"
  unfolding c_int_def by simp

lemma size_t_id: "0 \<le> x \<Longrightarrow> x < 2 ^ 31 \<Longrightarrow> size_t x = nat x"
  unfolding size_t_def by simp

lemma getByteBufferBuffer_direct:
  "pending env = None \<Longrightarrow> bbDirect (buffers env buf) \<Longrightarrow>
   getByteBufferBuffer env buf False =
     (Inr \<lparr>outPosition = bbPosition (buffers env buf), outJavaArray = None, outArray = None,
           outBuffer = DirectPtr buf (bbPosition (buffers env buf)),
           outBufferSize = bbLimit (buffers env buf) - bbPosition (buffers env buf)\<rparr>, env)"
  by (simp add: getByteBufferBuffer_def Let_def ExceptionCheck_def getByteBufferPosition_def
      getByteBufferLimit_def)

lemma getByteBufferBuffer_heap:
  "pending env = None \<Longrightarrow> \<not> bbDirect (buffers env buf) \<Longrightarrow> bbHasArray (buffers env buf) \<Longrightarrow>
   allocTape env = [] \<Longrightarrow>
   getByteBufferBuffer env buf False =
     (Inr \<lparr>outPosition = bbPosition (buffers env buf),
           outJavaArray = Some (LocalRef (bbArray (buffers env buf))),
           outArray = Some (bbArray (buffers env buf)),
           outBuffer = ArrayPtr (bbArray (buffers env buf))
                         (bbArrayOffset (buffers env buf) + bbPosition (buffers env buf)),
           outBufferSize = bbLimit (buffers env buf) - bbPosition (buffers env buf)\<rparr>,
      env\<lparr>pinned := bbArray (buffers env buf) # pinned env\<rparr>)"
  by (simp add: getByteBufferBuffer_def Let_def ExceptionCheck_def getByteBufferPosition_def
      getByteBufferLimit_def getByteBufferHasArray_def getByteBufferArrayOffset_def
      getByteBufferArray_def GetByteArrayElements_def allocOk_idle allocNext_idle)

lemma setByteBufferPosition_forward:
  "bufferWF (buffers env buf) \<Longrightarrow> bbPosition (buffers env buf) \<le> p \<Longrightarrow>
   p \<le> bbLimit (buffers env buf) \<Longrightarrow>
   setByteBufferPosition env buf p =
     env\<lparr>buffers := (buffers env)(buf := (buffers env buf)\<lparr>bbPosition := p\<rparr>)\<rparr>"
  by (simp add: setByteBufferPosition_def bufferWF_def Let_def)

text \<open>
  Claim C8. \<^verbatim>\<open>writeData\<close> on a well-formed buffer that is direct or array-backed, with
  no exception pending and no allocation failure: the library is offered exactly the
  bytes between position and limit; whatever it returns, no array and no direct memory
  changes, the array elements are released with \<^verbatim>\<open>JNI_ABORT\<close> and nothing stays pinned.
  When the library accepted \<open>n \<ge> 0\<close> bytes the buffer differs from before only in its
  position, which is \<open>n\<close> larger, and no exception is pending; when it returned a
  negative code every buffer is as before and an \<^verbatim>\<open>ArchiveException\<close> with the handle's
  error number and text is pending.
\<close>

theorem writeData_effect:
  assumes wf: "bufferWF (buffers (s_env s) javaBuffer)"
      and acc: "bbDirect (buffers (s_env s) javaBuffer) \<or> bbHasArray (buffers (s_env s) javaBuffer)"
      and idle: "pending (s_env s) = None" "allocTape (s_env s) = []"
      and ret: "archive_write_data (s_archive s) (remainingBytes (s_env s) javaBuffer) = (n, a)"
      and lo: "- (2 ^ 31) \<le> n"
      and hi: "n \<le> bbLimit (buffers (s_env s) javaBuffer) - bbPosition (buffers (s_env s) javaBuffer)"
  shows "arrays (s_env (Archive_writeData archive_write_data s javaBuffer)) = arrays (s_env s)
       \<and> directMem (s_env (Archive_writeData archive_write_data s javaBuffer)) = directMem (s_env s)
       \<and> pinned (s_env (Archive_writeData archive_write_data s javaBuffer)) = pinned (s_env s)
       \<and> released (s_env (Archive_writeData archive_write_data s javaBuffer)) =
           released (s_env s) @
             (if bbDirect (buffers (s_env s) javaBuffer) then []
              else [(bbArray (buffers (s_env s) javaBuffer), JNI_ABORT)])
       \<and> (0 \<le> n \<longrightarrow>
            buffers (s_env (Archive_writeData archive_write_data s javaBuffer)) =
              (buffers (s_env s))(javaBuffer := (buffers (s_env s) javaBuffer)
                 \<lparr>bbPosition := bbPosition (buffers (s_env s) javaBuffer) + n\<rparr>)
          \<and> pending (s_env (Archive_writeData archive_write_data s javaBuffer)) = None)
       \<and> (n < 0 \<longrightarrow>
            buffers (s_env (Archive_writeData archive_write_data s javaBuffer)) = buffers (s_env s)
          \<and> pending (s_env (Archive_writeData archive_write_data s javaBuffer)) =
              Some (Throwable True (archive_errno a) (archive_error_string a) None))"
proof -
  let ?b = "buffers (s_env s) javaBuffer"
  have rng: "0 \<le> bbPosition ?b" "bbPosition ?b \<le> bbLimit ?b" "bbLimit ?b < 2 ^ 31"
    using wf by (auto simp: bufferWF_def)
  have sz: "size_t (bbLimit ?b - bbPosition ?b) = nat (bbLimit ?b - bbPosition ?b)"
    using rng by (intro size_t_id) auto
  have n32: "c_int n = n" using lo hi rng by (intro c_int_id) auto
  have p32: "0 \<le> n \<Longrightarrow> c_int (bbPosition ?b + n) = bbPosition ?b + n"
    using hi rng by (intro c_int_id) auto
  show ?thesis
  proof (cases "bbDirect ?b")
    case True
    have data: "archive_write_data (s_archive s)
                  (take (nat (bbLimit ?b - bbPosition ?b))
                     (drop (nat (bbPosition ?b)) (directMem (s_env s) javaBuffer))) = (n, a)"
      using True ret by (simp add: remainingBytes_def Let_def)
    show ?thesis
    proof (cases "0 \<le> n")
      case nonneg: True
      then show ?thesis
        using True idle wf hi
        by (simp add: Archive_writeData_def getByteBufferBuffer_direct sz data n32 p32 Let_def
            setByteBufferPosition_forward ExceptionCheck_def)
    next
      case neg: False
      then show ?thesis
        using True idle
        by (simp add: Archive_writeData_def getByteBufferBuffer_direct sz data n32 Let_def
            throwArchiveExceptionFromError_def throwArchiveException_ok)
    qed
  next
    case False
    then have ha: "bbHasArray ?b" using acc by simp
    have data: "archive_write_data (s_archive s)
                  (take (nat (bbLimit ?b - bbPosition ?b))
                     (drop (nat (bbArrayOffset ?b + bbPosition ?b))
                        (arrays (s_env s) (bbArray ?b)))) = (n, a)"
      using False ret by (simp add: remainingBytes_def Let_def)
    show ?thesis
    proof (cases "0 \<le> n")
      case nonneg: True
      then show ?thesis
        using False ha idle wf hi
        by (simp add: Archive_writeData_def getByteBufferBuffer_heap sz data n32 p32 Let_def
            setByteBufferPosition_forward ExceptionCheck_def ReleaseByteArrayElements_def)
    next
      case neg: False
      then show ?thesis
        using False ha idle
        by (simp add: Archive_writeData_def getByteBufferBuffer_heap sz data n32 Let_def
            throwArchiveExceptionFromError_def throwArchiveException_ok
            ReleaseByteArrayElements_def)
    qed
  qed
qed

lemma example_buffer: "buffers (s_env (newSession n)) 3 = heapBuffer"
  by (simp add: newSession_def idleEnv_def)

lemma example_remaining: "remainingBytes (s_env (newSession n)) 3 = ''cdef''"
  by (simp add: remainingBytes_def newSession_def idleEnv_def heapBuffer_def Let_def)

lemma example_idle:
  "pending (s_env (newSession n)) = None" "allocTape (s_env (newSession n)) = []"
  by (simp_all add: newSession_def idleEnv_def)

text \<open>
  The theorem at the heap buffer of the examples (position 2, limit 6, over
  \<open>''abcdefgh''\<close>) and a library that accepts three of the four bytes offered.
\<close>

theorem writeData_effect_witness:
  "bbPosition (buffers (s_env (Archive_writeData sink3 (newSession []) 3)) 3) = 5
   \<and> arrays (s_env (Archive_writeData sink3 (newSession []) 3)) 2 = ''abcdefgh''
   \<and> pending (s_env (Archive_writeData sink3 (newSession []) 3)) = None
   \<and> released (s_env (Archive_writeData sink3 (newSession []) 3)) = [(2, JNI_ABORT)]
   \<and> pinned (s_env (Archive_writeData sink3 (newSession []) 3)) = []"
proof -
  let ?s = "newSession [] :: bytes session"
  have wf: "bufferWF (buffers (s_env ?s) 3)"
    by (simp add: example_buffer bufferWF_def heapBuffer_def)
  have acc: "bbDirect (buffers (s_env ?s) 3) \<or> bbHasArray (buffers (s_env ?s) 3)"
    by (simp add: example_buffer heapBuffer_def)
  have ret: "sink3 (s_archive ?s) (remainingBytes (s_env ?s) 3)
               = (3, (s_archive ?s)\<lparr>impl := ''cde''\<rparr>)"
    unfolding example_remaining by (simp add: sink3_def newSession_def)
  have lo: "- (2 ^ 31) \<le> (3::int)" by simp
  have hi: "3 \<le> bbLimit (buffers (s_env ?s) 3) - bbPosition (buffers (s_env ?s) 3)"
    by (simp add: example_buffer heapBuffer_def)
  from writeData_effect [where archive_write_data = sink3, OF wf acc example_idle ret lo hi]
  show ?thesis
    by (simp add: example_buffer heapBuffer_def) (simp add: newSession_def idleEnv_def)
qed

text \<open>
  Claim C4. \<^verbatim>\<open>readData\<close> on a well-formed buffer that is direct or array-backed, with
  no exception pending and no allocation failure, where the library is asked for the
  \<open>limit - position\<close> bytes of room and returns \<open>n\<close>: for \<open>0 \<le> n\<close> (less than asked
  or not) the position advances by exactly \<open>n\<close> and nothing is raised, so \<open>n = 0\<close>
  leaves the position where it was without an error; for \<open>n < 0\<close> the position stays
  and an \<^verbatim>\<open>ArchiveException\<close> with the handle's error number and text is pending.
  \<^verbatim>\<open>seekData\<close>: what the Java caller observes is the new offset when the library
  returned one, and the exception when it returned a negative code.
\<close>

theorem readData_count:
  assumes wf: "bufferWF (buffers (s_env s) javaBuffer)"
      and acc: "bbDirect (buffers (s_env s) javaBuffer) \<or> bbHasArray (buffers (s_env s) javaBuffer)"
      and idle: "pending (s_env s) = None" "allocTape (s_env s) = []"
      and ret: "archive_read_data (s_archive s)
                  (nat (bbLimit (buffers (s_env s) javaBuffer)
                          - bbPosition (buffers (s_env s) javaBuffer))) = (n, stored, a)"
      and lo: "- (2 ^ 31) \<le> n"
      and hi: "n \<le> bbLimit (buffers (s_env s) javaBuffer) - bbPosition (buffers (s_env s) javaBuffer)"
      and seek: "archive_seek_data (s_archive s) offset whence = (p, a')"
  shows "(0 \<le> n \<longrightarrow>
            buffers (s_env (Archive_readData archive_read_data s javaBuffer)) =
              (buffers (s_env s))(javaBuffer := (buffers (s_env s) javaBuffer)
                 \<lparr>bbPosition := bbPosition (buffers (s_env s) javaBuffer) + n\<rparr>)
          \<and> pending (s_env (Archive_readData archive_read_data s javaBuffer)) = None)
       \<and> (n < 0 \<longrightarrow>
            buffers (s_env (Archive_readData archive_read_data s javaBuffer)) = buffers (s_env s)
          \<and> pending (s_env (Archive_readData archive_read_data s javaBuffer)) =
              Some (Throwable True (archive_errno a) (archive_error_string a) None))
       \<and> jniReturn (s_env (snd (Archive_seekData archive_seek_data s offset whence)))
                    (fst (Archive_seekData archive_seek_data s offset whence)) =
           (if p < 0
            then Inl (Throwable True (archive_errno a') (archive_error_string a') None)
            else Inr p)"
proof -
  let ?b = "buffers (s_env s) javaBuffer"
  have rng: "0 \<le> bbPosition ?b" "bbPosition ?b \<le> bbLimit ?b" "bbLimit ?b < 2 ^ 31"
    using wf by (auto simp: bufferWF_def)
  have sz: "size_t (bbLimit ?b - bbPosition ?b) = nat (bbLimit ?b - bbPosition ?b)"
    using rng by (intro size_t_id) auto
  have n32: "c_int n = n" using lo hi rng by (intro c_int_id) auto
  have p32: "0 \<le> n \<Longrightarrow> c_int (bbPosition ?b + n) = bbPosition ?b + n"
    using hi rng by (intro c_int_id) auto
  have seeking: "jniReturn (s_env (snd (Archive_seekData archive_seek_data s offset whence)))
                    (fst (Archive_seekData archive_seek_data s offset whence)) =
           (if p < 0
            then Inl (Throwable True (archive_errno a') (archive_error_string a') None)
            else Inr p)"
    using seek idle
    by (simp add: Archive_seekData_def jniReturn_def throwArchiveExceptionFromError_def
        throwArchiveException_ok)
  have reading: "(0 \<le> n \<longrightarrow>
            buffers (s_env (Archive_readData archive_read_data s javaBuffer)) =
              (buffers (s_env s))(javaBuffer := ?b\<lparr>bbPosition := bbPosition ?b + n\<rparr>)
          \<and> pending (s_env (Archive_readData archive_read_data s javaBuffer)) = None)
       \<and> (n < 0 \<longrightarrow>
            buffers (s_env (Archive_readData archive_read_data s javaBuffer)) = buffers (s_env s)
          \<and> pending (s_env (Archive_readData archive_read_data s javaBuffer)) =
              Some (Throwable True (archive_errno a) (archive_error_string a) None))"
  proof (cases "bbDirect ?b")
    case True
    show ?thesis
    proof (cases "0 \<le> n")
      case nonneg: True
      then show ?thesis
        using True idle wf hi
        by (simp add: Archive_readData_def getByteBufferBuffer_direct sz ret n32 p32 Let_def
            setByteBufferPosition_forward ExceptionCheck_def)
    next
      case neg: False
      then show ?thesis
        using True idle
        by (simp add: Archive_readData_def getByteBufferBuffer_direct sz ret n32 Let_def
            throwArchiveExceptionFromError_def throwArchiveException_ok)
    qed
  next
    case False
    then have ha: "bbHasArray ?b" using acc by simp
    show ?thesis
    proof (cases "0 \<le> n")
      case nonneg: True
      then show ?thesis
        using False ha idle wf hi
        by (simp add: Archive_readData_def getByteBufferBuffer_heap sz ret n32 p32 Let_def
            setByteBufferPosition_forward ExceptionCheck_def ReleaseByteArrayElements_def)
    next
      case neg: False
      then show ?thesis
        using False ha idle
        by (simp add: Archive_readData_def getByteBufferBuffer_heap sz ret n32 Let_def
            throwArchiveExceptionFromError_def throwArchiveException_ok
            ReleaseByteArrayElements_def)
    qed
  qed
  from reading seeking show ?thesis by simp
qed

text \<open>
  The theorem at the heap buffer of the examples, with room for four bytes, and a
  library that hands out two bytes per call; the seek is one the library refuses.
\<close>

theorem readData_count_witness:
  "bbPosition (buffers (s_env (Archive_readData source2 (newSession ''xyz'') 3)) 3) = 4
   \<and> pending (s_env (Archive_readData source2 (newSession ''xyz'') 3)) = None
   \<and> jniReturn (s_env (snd (Archive_seekData seek_backwards (newSession ''xyz'') (- 1) 0)))
                (fst (Archive_seekData seek_backwards (newSession ''xyz'') (- 1) 0))
       = Inl (Throwable True 22 (Some ''negative offset'') None)"
proof -
  let ?s = "newSession ''xyz'' :: bytes session"
  have wf: "bufferWF (buffers (s_env ?s) 3)"
    by (simp add: example_buffer bufferWF_def heapBuffer_def)
  have acc: "bbDirect (buffers (s_env ?s) 3) \<or> bbHasArray (buffers (s_env ?s) 3)"
    by (simp add: example_buffer heapBuffer_def)
  have ret: "source2 (s_archive ?s)
               (nat (bbLimit (buffers (s_env ?s) 3) - bbPosition (buffers (s_env ?s) 3)))
               = (2, ''xy'', (s_archive ?s)\<lparr>impl := ''z''\<rparr>)"
    unfolding example_buffer by (simp add: source2_def heapBuffer_def newSession_def)
  have lo: "- (2 ^ 31) \<le> (2::int)" by simp
  have hi: "2 \<le> bbLimit (buffers (s_env ?s) 3) - bbPosition (buffers (s_env ?s) 3)"
    by (simp add: example_buffer heapBuffer_def)
  have seek: "seek_backwards (s_archive ?s) (- 1) 0
                = (ARCHIVE_FATAL, archive_set_error (s_archive ?s) 22 (Some ''negative offset''))"
    by (simp add: seek_backwards_def)
  from readData_count [where archive_read_data = source2 and archive_seek_data = seek_backwards,
      OF wf acc example_idle ret lo hi seek]
  show ?thesis
    by (simp add: example_buffer heapBuffer_def ARCHIVE_FATAL_def archive_set_error_def)
qed

section \<open>Failing callbacks\<close>

lemma setArchiveErrorFromException_idle:
  "pending env = Some t \<Longrightarrow> allocTape env = [] \<Longrightarrow>
   setArchiveErrorFromException env a =
     (True, env\<lparr>pending := None\<rparr>,
      archive_set_error a (if thIsArchive t then thCode t else ARCHIVE_FATAL) (thMessage t))"
  by (cases env)
     (simp add: setArchiveErrorFromException_def Let_def ExceptionClear_def
      ExceptionDescribe_def GetStringUTFChars_def isArchiveException_def
      getArchiveExceptionCode_def getThrowableMessage_def allocOk_def allocNext_def
      split: option.splits)

lemma setArchiveErrorFromException_code:
  "pending env = Some t \<Longrightarrow>
   fst (setArchiveErrorFromException env a) \<and>
   archive_errno (snd (snd (setArchiveErrorFromException env a)))
     = (if thIsArchive t then thCode t else ARCHIVE_FATAL)"
  by (simp add: setArchiveErrorFromException_def Let_def archive_set_error_def
      isArchiveException_def getArchiveExceptionCode_def split: option.splits prod.splits)

text \<open>
  Claim C5. When an exception \<open>t\<close> is pending after a callback,
  \<^verbatim>\<open>setArchiveErrorFromException\<close> reports it and sets the session's error number to the
  exception's code if it is an \<^verbatim>\<open>ArchiveException\<close> and to \<^verbatim>\<open>ARCHIVE_FATAL\<close> otherwise;
  when the message string can be obtained, the session's error text is the exception's
  message and the exception is cleared. The open callback and the passphrase callback
  whose Java method throws \<open>t\<close> record exactly this error and report failure to the
  library (\<^verbatim>\<open>ARCHIVE_FATAL\<close>, no passphrase).
\<close>

theorem callback_exception_recorded:
  assumes "allocTape (s_env s) = []" and "pending (s_env s) = None"
  shows "(pending env = Some t \<longrightarrow>
            fst (setArchiveErrorFromException env a)
          \<and> archive_errno (snd (snd (setArchiveErrorFromException env a)))
              = (if thIsArchive t then thCode t else ARCHIVE_FATAL)
          \<and> (allocTape env = [] \<longrightarrow>
               setArchiveErrorFromException env a =
                 (True, env\<lparr>pending := None\<rparr>,
                  a\<lparr>archive_errno := (if thIsArchive t then thCode t else ARCHIVE_FATAL),
                    archive_error_string := thMessage t\<rparr>)))
       \<and> fst (archiveOpenCallback (Some t) s) = ARCHIVE_FATAL
       \<and> s_archive (snd (archiveOpenCallback (Some t) s)) =
           (s_archive s)\<lparr>archive_errno := (if thIsArchive t then thCode t else ARCHIVE_FATAL),
                         archive_error_string := thMessage t\<rparr>
       \<and> pending (s_env (snd (archiveOpenCallback (Some t) s))) = None
       \<and> fst (archivePassphraseCallback (Inl t) s) = None
       \<and> s_archive (snd (archivePassphraseCallback (Inl t) s)) =
           (s_archive s)\<lparr>archive_errno := (if thIsArchive t then thCode t else ARCHIVE_FATAL),
                         archive_error_string := thMessage t\<rparr>
       \<and> pending (s_env (snd (archivePassphraseCallback (Inl t) s))) = None"
proof -
  have helper: "pending env = Some t \<longrightarrow>
            fst (setArchiveErrorFromException env a)
          \<and> archive_errno (snd (snd (setArchiveErrorFromException env a)))
              = (if thIsArchive t then thCode t else ARCHIVE_FATAL)
          \<and> (allocTape env = [] \<longrightarrow>
               setArchiveErrorFromException env a =
                 (True, env\<lparr>pending := None\<rparr>,
                  a\<lparr>archive_errno := (if thIsArchive t then thCode t else ARCHIVE_FATAL),
                    archive_error_string := thMessage t\<rparr>))"
    using setArchiveErrorFromException_code [of env t a]
      setArchiveErrorFromException_idle [of env t a]
    by (simp add: archive_set_error_def)
  let ?e1 = "callArchiveOpenCallbackOnOpen (s_env s) (openCallback (s_jniData s)) (Some t)"
  have e1: "pending ?e1 = Some t" "allocTape ?e1 = []"
    using assms by (simp_all add: callArchiveOpenCallbackOnOpen_def Throw_def Let_def)
  have on_open: "archiveOpenCallback (Some t) s =
      (ARCHIVE_FATAL,
       s\<lparr>s_env := ?e1\<lparr>pending := None\<rparr>,
         s_archive := archive_set_error (s_archive s)
                        (if thIsArchive t then thCode t else ARCHIVE_FATAL) (thMessage t)\<rparr>)"
    using assms
    by (simp add: archiveOpenCallback_def PushLocalFrame_def allocOk_idle allocNext_idle
        Let_def setArchiveErrorFromException_idle [OF e1])
  let ?e2 = "Throw ((free (s_env s) (passphrase (s_jniData s)))
                      \<lparr>upcalls := upcalls (free (s_env s) (passphrase (s_jniData s)))
                                    @ [OnPassphrase (passphraseCallback (s_jniData s))]\<rparr>) t"
  have call: "callArchivePassphraseCallbackOnPassphrase
                (free (s_env s) (passphrase (s_jniData s)))
                (passphraseCallback (s_jniData s)) (Inl t) = (None, ?e2)"
    by (simp add: callArchivePassphraseCallbackOnPassphrase_def Let_def)
  have e2: "pending ?e2 = Some t" "allocTape ?e2 = []"
    using assms by (simp_all add: Throw_def free_def split: option.splits)
  have on_ask: "archivePassphraseCallback (Inl t) s =
      (None,
       s\<lparr>s_env := ?e2\<lparr>pending := None\<rparr>,
         s_jniData := (s_jniData s)\<lparr>passphrase := None\<rparr>,
         s_archive := archive_set_error (s_archive s)
                        (if thIsArchive t then thCode t else ARCHIVE_FATAL) (thMessage t)\<rparr>)"
    using assms
    by (simp add: archivePassphraseCallback_def PushLocalFrame_def allocOk_idle allocNext_idle
        Let_def call setArchiveErrorFromException_idle [OF e2])
  show ?thesis
    using helper by (simp add: on_open on_ask archive_set_error_def)
qed

text \<open>
  The theorem at an exception of another class (the default code), and at an
  \<^verbatim>\<open>ArchiveException\<close> with code \<open>-20\<close> thrown by \<^verbatim>\<open>onOpen\<close>.
\<close>

theorem callback_exception_recorded_witness:
  "setArchiveErrorFromException
      (idleEnv\<lparr>pending := Some (Throwable False 0 (Some ''disk gone'') None)\<rparr>)
      (s_archive (newSession (0::nat)))
     = (True, idleEnv,
        (s_archive (newSession 0))\<lparr>archive_errno := - 30,
                                   archive_error_string := Some ''disk gone''\<rparr>)
   \<and> fst (archiveOpenCallback (Some (Throwable True (- 20) (Some ''retry later'') None))
            (newSession (0::nat))) = - 30
   \<and> archive_errno (s_archive (snd (archiveOpenCallback
            (Some (Throwable True (- 20) (Some ''retry later'') None)) (newSession (0::nat)))))
       = - 20
   \<and> archive_error_string (s_archive (snd (archiveOpenCallback
            (Some (Throwable True (- 20) (Some ''retry later'') None)) (newSession (0::nat)))))
       = Some ''retry later''"
  using callback_exception_recorded [of "newSession (0::nat)"
      "idleEnv\<lparr>pending := Some (Throwable False 0 (Some ''disk gone'') None)\<rparr>"
      "Throwable False 0 (Some ''disk gone'') None" "s_archive (newSession (0::nat))"]
    callback_exception_recorded [of "newSession (0::nat)"
      idleEnv "Throwable True (- 20) (Some ''retry later'') None" "s_archive (newSession (0::nat))"]
  by (simp add: newSession_def idleEnv_def ARCHIVE_FATAL_def)

section \<open>Passphrase requests\<close>

lemma setArchiveErrorFromException_none:
  "pending env = None \<Longrightarrow> setArchiveErrorFromException env a = (False, env, a)"
  by (simp add: setArchiveErrorFromException_def)

lemma mallocStringFromBytes_idle:
  "allocTape env = [] \<Longrightarrow>
   mallocStringFromBytes env (Some arr) =
     (Some (CString (nextBlock env) (arrays env arr)),
      env\<lparr>released := released env @ [(arr, JNI_ABORT)],
          mallocBlocks := insert (nextBlock env) (mallocBlocks env),
          nextBlock := Suc (nextBlock env)\<rparr>)"
  by (cases env)
     (simp add: mallocStringFromBytes_def malloc_def allocOk_def allocNext_def Let_def
      ReleaseByteArrayElements_def)

lemma mallocStringFromBytes_null: "mallocStringFromBytes env None = (None, env)"
  by (simp add: mallocStringFromBytes_def)

lemma free_fields:
  "pending (free env p) = pending env" "allocTape (free env p) = allocTape env"
  "upcalls (free env p) = upcalls env" "nextBlock (free env p) = nextBlock env"
  "arrays (free env p) = arrays env" "globalRefs (free env p) = globalRefs env"
  "pinned (free env p) = pinned env"
  "mallocBlocks (free env p) = mallocBlocks env - blockOf p"
  by (simp_all add: free_def blockOf_def split: option.splits)

lemma archivePassphraseCallback_effect:
  assumes idle: "allocTape (s_env s) = []" "pending (s_env s) = None"
  shows "upcalls (s_env (snd (archivePassphraseCallback onPassphrase s))) =
           upcalls (s_env s) @ [OnPassphrase (passphraseCallback (s_jniData s))]
       \<and> fst (archivePassphraseCallback onPassphrase s) =
           (case onPassphrase of
              Inr (Some arr) \<Rightarrow> Some (CString (nextBlock (s_env s)) (arrays (s_env s) arr))
            | _ \<Rightarrow> None)
       \<and> passphrase (s_jniData (snd (archivePassphraseCallback onPassphrase s))) =
           fst (archivePassphraseCallback onPassphrase s)
       \<and> mallocBlocks (s_env (snd (archivePassphraseCallback onPassphrase s))) =
           mallocBlocks (s_env s) - blockOf (passphrase (s_jniData s))
             \<union> blockOf (fst (archivePassphraseCallback onPassphrase s))"
proof -
  let ?e = "free (s_env s) (passphrase (s_jniData s))"
  let ?cb = "passphraseCallback (s_jniData s)"
  let ?jd = "(s_jniData s)\<lparr>passphrase := None\<rparr>"
  show ?thesis
  proof (cases onPassphrase)
    case (Inl t)
    let ?e2 = "Throw (?e\<lparr>upcalls := upcalls ?e @ [OnPassphrase ?cb]\<rparr>) t"
    have call: "callArchivePassphraseCallbackOnPassphrase ?e ?cb (Inl t) = (None, ?e2)"
      by (simp add: callArchivePassphraseCallbackOnPassphrase_def Let_def)
    have e2: "pending ?e2 = Some t" "allocTape ?e2 = []"
      using idle by (simp_all add: Throw_def free_fields)
    have res: "archivePassphraseCallback (Inl t) s =
        (None,
         s\<lparr>s_env := ?e2\<lparr>pending := None\<rparr>, s_jniData := ?jd,
           s_archive := archive_set_error (s_archive s)
                          (if thIsArchive t then thCode t else ARCHIVE_FATAL) (thMessage t)\<rparr>)"
      using idle
      by (simp add: archivePassphraseCallback_def PushLocalFrame_def allocOk_idle
          allocNext_idle Let_def call setArchiveErrorFromException_idle [OF e2])
    show ?thesis
      unfolding Inl res by (simp add: Throw_def free_fields blockOf_def)
  next
    case (Inr javaPassphrase)
    let ?e2 = "?e\<lparr>upcalls := upcalls ?e @ [OnPassphrase ?cb]\<rparr>"
    have call: "callArchivePassphraseCallbackOnPassphrase ?e ?cb (Inr javaPassphrase)
                  = (javaPassphrase, ?e2)"
      by (simp add: callArchivePassphraseCallbackOnPassphrase_def Let_def)
    have e2: "pending ?e2 = None" "allocTape ?e2 = []"
      using idle by (simp_all add: free_fields)
    show ?thesis
    proof (cases javaPassphrase)
      case None
      have res: "archivePassphraseCallback (Inr None) s =
          (None, s\<lparr>s_env := ?e2, s_jniData := ?jd\<rparr>)"
        using idle
        by (simp add: archivePassphraseCallback_def PushLocalFrame_def allocOk_idle
            allocNext_idle Let_def call [unfolded None]
            setArchiveErrorFromException_none [OF e2(1)] mallocStringFromBytes_null)
      show ?thesis
        unfolding Inr None res by (simp add: free_fields blockOf_def)
    next
      case (Some arr)
      let ?c = "CString (nextBlock ?e2) (arrays ?e2 arr)"
      have res: "archivePassphraseCallback (Inr (Some arr)) s =
          (Some ?c,
           s\<lparr>s_env := ?e2\<lparr>released := released ?e2 @ [(arr, JNI_ABORT)],
                         mallocBlocks := insert (nextBlock ?e2) (mallocBlocks ?e2),
                         nextBlock := Suc (nextBlock ?e2)\<rparr>,
             s_jniData := (s_jniData s)\<lparr>passphrase := Some ?c\<rparr>\<rparr>)"
        using idle
        by (simp add: archivePassphraseCallback_def PushLocalFrame_def allocOk_idle
            allocNext_idle Let_def call [unfolded Some]
            setArchiveErrorFromException_none [OF e2(1)]
            mallocStringFromBytes_idle [OF e2(2)])
      show ?thesis
        unfolding Inr Some res by (simp add: free_fields blockOf_def)
    qed
  qed
qed

text \<open>
  Claim C6, as the binding implements it. Each time the library asks for a passphrase
  (with no exception pending and no allocation failure) \<^verbatim>\<open>archivePassphraseCallback\<close>
  invokes the Java callback exactly once, whatever is stored from an earlier request;
  the stored string is freed first, and what is stored and returned afterwards is a copy
  of the bytes the Java method returned now, or nothing when it returned \<^verbatim>\<open>null\<close> or
  threw.
\<close>

theorem passphrase_request:
  assumes idle: "allocTape (s_env s) = []" "pending (s_env s) = None"
  shows "upcalls (s_env (snd (archivePassphraseCallback onPassphrase s))) =
           upcalls (s_env s) @ [OnPassphrase (passphraseCallback (s_jniData s))]
       \<and> fst (archivePassphraseCallback onPassphrase s) =
           (case onPassphrase of
              Inr (Some arr) \<Rightarrow> Some (CString (nextBlock (s_env s)) (arrays (s_env s) arr))
            | _ \<Rightarrow> None)
       \<and> passphrase (s_jniData (snd (archivePassphraseCallback onPassphrase s))) =
           fst (archivePassphraseCallback onPassphrase s)
       \<and> mallocBlocks (s_env (snd (archivePassphraseCallback onPassphrase s))) =
           mallocBlocks (s_env s) - blockOf (passphrase (s_jniData s))
             \<union> blockOf (fst (archivePassphraseCallback onPassphrase s))"
  using idle by (rule archivePassphraseCallback_effect)

text \<open>
  The theorem at the session with a callback installed, whose Java method returns the
  array object 7 (\<open>''secret''\<close>).
\<close>

lemma providerSession_eq:
  "providerSession =
     (newSession 0)\<lparr>s_env := idleEnv\<lparr>globalRefs := {0}, nextRef := Suc 0\<rparr>,
                     s_jniData := calloc_ArchiveJniData
                        \<lparr>passphraseCallback := Some (GlobalRef 0 9)\<rparr>\<rparr>"
  by (simp add: providerSession_def Archive_readSetPassphraseCallback_def NewGlobalRef_def
      set_passphrase_ok_def ARCHIVE_OK_def DeleteGlobalRef_def newSession_def
      calloc_ArchiveJniData_def allocOk_def allocNext_def idleEnv_def)

theorem passphrase_request_witness:
  "fst (archivePassphraseCallback (Inr (Some 7)) providerSession) = Some (CString 0 ''secret'')
   \<and> passphrase (s_jniData (snd (archivePassphraseCallback (Inr (Some 7)) providerSession)))
       = Some (CString 0 ''secret'')
   \<and> upcalls (s_env (snd (archivePassphraseCallback (Inr (Some 7)) providerSession)))
       = [OnPassphrase (Some (GlobalRef 0 9))]
   \<and> mallocBlocks (s_env (snd (archivePassphraseCallback (Inr (Some 7)) providerSession)))
       = {0}"
  using passphrase_request [of providerSession "Inr (Some 7)"]
  by (simp add: providerSession_eq newSession_def idleEnv_def calloc_ArchiveJniData_def
      blockOf_def)

text \<open>
  The claim fails on a second request: with \<open>''secret''\<close> stored from the first request,
  the Java callback is invoked again, and when it now returns \<^verbatim>\<open>null\<close> the stored string
  is freed and nothing is stored.
\<close>

theorem passphrase_not_cached_counterexample:
  "passphrase (s_jniData (snd (archivePassphraseCallback (Inr (Some 7)) providerSession)))
       = Some (CString 0 ''secret'')
   \<and> upcalls (s_env (snd (archivePassphraseCallback (Inr None)
                (snd (archivePassphraseCallback (Inr (Some 7)) providerSession)))))
       = [OnPassphrase (Some (GlobalRef 0 9)), OnPassphrase (Some (GlobalRef 0 9))]
   \<and> passphrase (s_jniData (snd (archivePassphraseCallback (Inr None)
                (snd (archivePassphraseCallback (Inr (Some 7)) providerSession)))))
       = None
   \<and> mallocBlocks (s_env (snd (archivePassphraseCallback (Inr None)
                (snd (archivePassphraseCallback (Inr (Some 7)) providerSession)))))
       = {}"
proof -
  let ?s1 = "snd (archivePassphraseCallback (Inr (Some 7)) providerSession)"
  have idle0: "allocTape (s_env providerSession) = []" "pending (s_env providerSession) = None"
    by (simp_all add: providerSession_eq idleEnv_def)
  have first: "upcalls (s_env ?s1) = [OnPassphrase (Some (GlobalRef 0 9))]"
    "passphrase (s_jniData ?s1) = Some (CString 0 ''secret'')"
    "mallocBlocks (s_env ?s1) = {0}"
    using archivePassphraseCallback_effect [OF idle0, of "Inr (Some 7)"]
    by (simp_all add: providerSession_eq newSession_def idleEnv_def calloc_ArchiveJniData_def
        blockOf_def)
  have cb1: "passphraseCallback (s_jniData ?s1) = Some (GlobalRef 0 9)"
    using idle0 
    by (simp add: archivePassphraseCallback_def PushLocalFrame_def allocOk_idle allocNext_idle
        Let_def callArchivePassphraseCallbackOnPassphrase_def free_fields
        setArchiveErrorFromException_none mallocStringFromBytes_idle)
       (simp add: providerSession_eq calloc_ArchiveJniData_def)
  have idle1: "allocTape (s_env ?s1) = []" "pending (s_env ?s1) = None"
    using idle0 
    by (simp_all add: archivePassphraseCallback_def PushLocalFrame_def allocOk_idle
        allocNext_idle Let_def callArchivePassphraseCallbackOnPassphrase_def free_fields
        setArchiveErrorFromException_none mallocStringFromBytes_idle)
  from archivePassphraseCallback_effect [OF idle1, of "Inr None"] first cb1
  show ?thesis by (simp add: blockOf_def)
qed

section \<open>Optional byte strings\<close>

lemma mallocStringFromBytes_failed:
  "\<not> allocOk env \<Longrightarrow>
   mallocStringFromBytes env (Some arr) = (None, (allocNext env)\<lparr>pinned := arr # pinned env\<rparr>)"
  by (cases env) (simp add: mallocStringFromBytes_def malloc_def allocNext_def allocOk_def Let_def)

lemma mallocStringFromBytes_done:
  "allocOk env \<Longrightarrow>
   fst (mallocStringFromBytes env (Some arr)) = Some (CString (nextBlock env) (arrays env arr))"
  by (simp add: mallocStringFromBytes_def malloc_def allocOk_def Let_def)

lemma null_strings:
  shows "Archive_readOpenFileName open_filename s None blockSize =
           (case open_filename (s_archive s) None (size_t blockSize) of
              (errorCode, a) \<Rightarrow>
                if errorCode \<noteq> 0
                then s\<lparr>s_env := throwArchiveExceptionFromError (s_env s) a, s_archive := a\<rparr>
                else s\<lparr>s_archive := a\<rparr>)"
    and "Archive_readAddPassphrase add_passphrase s None =
           (case add_passphrase (s_archive s) None of
              (errorCode, a) \<Rightarrow>
                if errorCode \<noteq> 0
                then s\<lparr>s_env := throwArchiveExceptionFromError (s_env s) a, s_archive := a\<rparr>
                else s\<lparr>s_archive := a\<rparr>)"
    and "Archive_readSetOptions set_options s None =
           (case set_options (s_archive s) None of
              (errorCode, a) \<Rightarrow>
                if errorCode \<noteq> 0
                then s\<lparr>s_env := throwArchiveExceptionFromError (s_env s) a, s_archive := a\<rparr>
                else s\<lparr>s_archive := a\<rparr>)"
    and "ArchiveEntry_setPathname set_pathname env entry None = (env, set_pathname entry None)"
  by (simp_all add: Archive_readOpenFileName_def Archive_readAddPassphrase_def
      Archive_readSetOptions_def ArchiveEntry_setPathname_def mallocStringFromBytes_null
      free_def Let_def split: prod.splits)

lemma given_strings:
  shows "if allocOk (s_env s)
         then s_archive (Archive_readOpenFileName open_filename s (Some arr) blockSize) =
                snd (open_filename (s_archive s) (Some (c_string (arrays (s_env s) arr))) (size_t blockSize))
         else Archive_readOpenFileName open_filename s (Some arr) blockSize =
                s\<lparr>s_env := throwArchiveException
                               (allocNext ((s_env s)\<lparr>pinned := arr # pinned (s_env s)\<rparr>))
                               ARCHIVE_FATAL (Some ''mallocStringFromBytes'')\<rparr>"
    and "if allocOk (s_env s)
         then s_archive (Archive_readAddPassphrase add_passphrase s (Some arr)) =
                snd (add_passphrase (s_archive s) (Some (c_string (arrays (s_env s) arr))))
         else Archive_readAddPassphrase add_passphrase s (Some arr) =
                s\<lparr>s_env := throwArchiveException
                               (allocNext ((s_env s)\<lparr>pinned := arr # pinned (s_env s)\<rparr>))
                               ARCHIVE_FATAL (Some ''mallocStringFromBytes'')\<rparr>"
    and "if allocOk (s_env s)
         then s_archive (Archive_readSetOptions set_options s (Some arr)) =
                snd (set_options (s_archive s) (Some (c_string (arrays (s_env s) arr))))
         else Archive_readSetOptions set_options s (Some arr) =
                s\<lparr>s_env := throwArchiveException
                               (allocNext ((s_env s)\<lparr>pinned := arr # pinned (s_env s)\<rparr>))
                               ARCHIVE_FATAL (Some ''mallocStringFromBytes'')\<rparr>"
    and "snd (ArchiveEntry_setPathname set_pathname env entry (Some arr)) =
           set_pathname entry (if allocOk env then Some (c_string (arrays env arr)) else None)"
  by (simp_all add: Archive_readOpenFileName_def Archive_readAddPassphrase_def
      Archive_readSetOptions_def ArchiveEntry_setPathname_def mallocStringFromBytes_def
      malloc_def allocOk_def Let_def c_str_def split: prod.splits)

lemma given_strings_raise:
  assumes "allocOk (s_env s)" and "pending (s_env s) = None"
  shows "(pending (s_env (Archive_readOpenFileName open_filename s (Some arr) blockSize)) = None)
           = (fst (open_filename (s_archive s) (Some (c_string (arrays (s_env s) arr))) (size_t blockSize)) = 0)"
    and "(pending (s_env (Archive_readAddPassphrase add_passphrase s (Some arr))) = None)
           = (fst (add_passphrase (s_archive s) (Some (c_string (arrays (s_env s) arr)))) = 0)"
    and "(pending (s_env (Archive_readSetOptions set_options s (Some arr))) = None)
           = (fst (set_options (s_archive s) (Some (c_string (arrays (s_env s) arr)))) = 0)"
  using assms
  by (simp_all add: Archive_readOpenFileName_def Archive_readAddPassphrase_def
      Archive_readSetOptions_def mallocStringFromBytes_def malloc_def Let_def free_def
      ReleaseByteArrayElements_def throwArchiveExceptionFromError_def allocOk_def
      throwArchiveException_pending split_beta c_str_def)

lemma setPathname_quiet:
  "pending (fst (ArchiveEntry_setPathname set_pathname env entry javaPathname)) = pending env"
  by (simp add: ArchiveEntry_setPathname_def mallocStringFromBytes_def malloc_def Let_def
      free_def ReleaseByteArrayElements_def split: prod.splits option.splits)

text \<open>
  Claim C9. For a file name, an option string, a passphrase and an entry path name,
  \<^verbatim>\<open>null\<close> is handed to the library as the absent string and the call behaves as the
  library decides. A non-null array reaches the library as the C string of its bytes
  when the copy can be allocated, and then an exception is pending afterwards exactly
  when the library returned a non-zero code; only when the copy of a non-null array
  cannot be allocated is the library not called and the conversion error raised. The
  entry setter never changes the pending exception, and hands over the absent string
  when the copy fails.
\<close>

theorem optional_strings:
  "Archive_readOpenFileName open_filename s None blockSize =
     (case open_filename (s_archive s) None (size_t blockSize) of
        (errorCode, a) \<Rightarrow>
          if errorCode \<noteq> 0
          then s\<lparr>s_env := throwArchiveExceptionFromError (s_env s) a, s_archive := a\<rparr>
          else s\<lparr>s_archive := a\<rparr>)
   \<and> Archive_readAddPassphrase add_passphrase s None =
     (case add_passphrase (s_archive s) None of
        (errorCode, a) \<Rightarrow>
          if errorCode \<noteq> 0
          then s\<lparr>s_env := throwArchiveExceptionFromError (s_env s) a, s_archive := a\<rparr>
          else s\<lparr>s_archive := a\<rparr>)
   \<and> Archive_readSetOptions set_options s None =
     (case set_options (s_archive s) None of
        (errorCode, a) \<Rightarrow>
          if errorCode \<noteq> 0
          then s\<lparr>s_env := throwArchiveExceptionFromError (s_env s) a, s_archive := a\<rparr>
          else s\<lparr>s_archive := a\<rparr>)
   \<and> ArchiveEntry_setPathname set_pathname env entry None = (env, set_pathname entry None)
   \<and> (if allocOk (s_env s)
      then s_archive (Archive_readOpenFileName open_filename s (Some arr) blockSize) =
             snd (open_filename (s_archive s) (Some (c_string (arrays (s_env s) arr))) (size_t blockSize))
      else Archive_readOpenFileName open_filename s (Some arr) blockSize =
             s\<lparr>s_env := throwArchiveException
                            (allocNext ((s_env s)\<lparr>pinned := arr # pinned (s_env s)\<rparr>))
                            ARCHIVE_FATAL (Some ''mallocStringFromBytes'')\<rparr>)
   \<and> (if allocOk (s_env s)
      then s_archive (Archive_readAddPassphrase add_passphrase s (Some arr)) =
             snd (add_passphrase (s_archive s) (Some (c_string (arrays (s_env s) arr))))
      else Archive_readAddPassphrase add_passphrase s (Some arr) =
             s\<lparr>s_env := throwArchiveException
                            (allocNext ((s_env s)\<lparr>pinned := arr # pinned (s_env s)\<rparr>))
                            ARCHIVE_FATAL (Some ''mallocStringFromBytes'')\<rparr>)
   \<and> (if allocOk (s_env s)
      then s_archive (Archive_readSetOptions set_options s (Some arr)) =
             snd (set_options (s_archive s) (Some (c_string (arrays (s_env s) arr))))
      else Archive_readSetOptions set_options s (Some arr) =
             s\<lparr>s_env := throwArchiveException
                            (allocNext ((s_env s)\<lparr>pinned := arr # pinned (s_env s)\<rparr>))
                            ARCHIVE_FATAL (Some ''mallocStringFromBytes'')\<rparr>)
   \<and> (allocOk (s_env s) \<and> pending (s_env s) = None \<longrightarrow>
        (pending (s_env (Archive_readOpenFileName open_filename s (Some arr) blockSize)) = None)
          = (fst (open_filename (s_archive s) (Some (c_string (arrays (s_env s) arr))) (size_t blockSize)) = 0)
      \<and> (pending (s_env (Archive_readAddPassphrase add_passphrase s (Some arr))) = None)
          = (fst (add_passphrase (s_archive s) (Some (c_string (arrays (s_env s) arr)))) = 0)
      \<and> (pending (s_env (Archive_readSetOptions set_options s (Some arr))) = None)
          = (fst (set_options (s_archive s) (Some (c_string (arrays (s_env s) arr)))) = 0))
   \<and> snd (ArchiveEntry_setPathname set_pathname env entry (Some arr)) =
       set_pathname entry (if allocOk env then Some (c_string (arrays env arr)) else None)
   \<and> pending (fst (ArchiveEntry_setPathname set_pathname env entry javaPathname)) = pending env"
proof -
  have raised: "allocOk (s_env s) \<and> pending (s_env s) = None \<longrightarrow>
        (pending (s_env (Archive_readOpenFileName open_filename s (Some arr) blockSize)) = None)
          = (fst (open_filename (s_archive s) (Some (c_string (arrays (s_env s) arr))) (size_t blockSize)) = 0)
      \<and> (pending (s_env (Archive_readAddPassphrase add_passphrase s (Some arr))) = None)
          = (fst (add_passphrase (s_archive s) (Some (c_string (arrays (s_env s) arr)))) = 0)
      \<and> (pending (s_env (Archive_readSetOptions set_options s (Some arr))) = None)
          = (fst (set_options (s_archive s) (Some (c_string (arrays (s_env s) arr)))) = 0)"
    by (intro impI conjI given_strings_raise) simp_all
  show ?thesis
    by (intro conjI null_strings given_strings setPathname_quiet raised)
qed

text \<open>
  The theorem at an open and a passphrase call that remember the string they were
  given: first with \<^verbatim>\<open>null\<close>, then with the array object 7 (\<open>''secret''\<close>).
\<close>

theorem optional_strings_witness:
  "impl (s_archive (Archive_readOpenFileName open_recording (newSession (Some ''old'')) None 10240))
     = None
   \<and> impl (s_archive (Archive_readAddPassphrase add_recording (newSession (Some ''old'')) None))
     = None
   \<and> impl (s_archive (Archive_readOpenFileName open_recording (newSession (Some ''old''))
                         (Some 7) 10240))
     = Some ''secret''
   \<and> pending (s_env (Archive_readOpenFileName open_recording (newSession (Some ''old''))
                         (Some 7) 10240))
     = None"
  using optional_strings [where open_filename = open_recording
      and add_passphrase = add_recording and set_options = add_recording
      and s = "newSession (Some ''old'')" and blockSize = 10240 and arr = 7
      and set_pathname = "\<lambda>e p. p" and env = idleEnv and entry = None
      and javaPathname = None]
  by (simp add: open_recording_def add_recording_def ARCHIVE_OK_def allocOk_idle example_idle)
     (simp add: newSession_def idleEnv_def c_string_def)

section \<open>Releasing what a session holds\<close>

lemma refIdList_set: "set (refIdList r) = refIds r"
  by (cases r rule: refIdList.cases) simp_all

lemma DeleteGlobalRef_fields:
  "globalRefs (DeleteGlobalRef env r) = globalRefs env - refIds r"
  "pinned (DeleteGlobalRef env r) = pinned env"
  "mallocBlocks (DeleteGlobalRef env r) = mallocBlocks env"
  "pending (DeleteGlobalRef env r) = pending env"
  "buffers (DeleteGlobalRef env r) = buffers env"
  "allocTape (DeleteGlobalRef env r) = allocTape env"
  by (cases r rule: refIdList.cases; simp add: DeleteGlobalRef_def)+

lemma ReleaseByteArrayElements_fields:
  "globalRefs (ReleaseByteArrayElements env e m) = globalRefs env"
  "pinned (ReleaseByteArrayElements env e m) = remove1 e (pinned env)"
  "mallocBlocks (ReleaseByteArrayElements env e m) = mallocBlocks env"
  "pending (ReleaseByteArrayElements env e m) = pending env"
  "allocTape (ReleaseByteArrayElements env e m) = allocTape env"
  by (simp_all add: ReleaseByteArrayElements_def)

lemma setByteBufferPosition_fields:
  "globalRefs (setByteBufferPosition env b p) = globalRefs env"
  "pinned (setByteBufferPosition env b p) = pinned env"
  "mallocBlocks (setByteBufferPosition env b p) = mallocBlocks env"
  by (simp_all add: setByteBufferPosition_def Throw_def Let_def)

lemma closeArchiveJniData_runs:
  assumes "\<not> deadRef (openMemoryJavaArray jd)" "\<not> deadRef (writeOpenMemoryJavaBuffer jd)"
      and "\<not> deadRef (readJavaArray jd)"
  shows "\<not> isl (closeArchiveJniData env jd)"
  using assms unfolding closeArchiveJniData_def Let_def by (simp add: split_beta)

lemma closeArchiveJniData_releases:
  assumes "\<not> deadRef (openMemoryJavaArray jd)" "\<not> deadRef (writeOpenMemoryJavaBuffer jd)"
      and "\<not> deadRef (readJavaArray jd)"
  shows "globalRefs (fst (projr (closeArchiveJniData env jd))) =
           globalRefs env - (refIds (openMemoryJavaArray jd)
                              \<union> refIds (writeOpenMemoryJavaBuffer jd)
                              \<union> refIds (readJavaArray jd))"
    and "pinned (fst (projr (closeArchiveJniData env jd))) =
           unpin (readArray jd) (unpin (openMemoryArray jd) (pinned env))"
    and "mallocBlocks (fst (projr (closeArchiveJniData env jd))) =
           mallocBlocks env - blockOf (passphrase jd)"
proof -
  show "globalRefs (fst (projr (closeArchiveJniData env jd))) =
     globalRefs env - (refIds (openMemoryJavaArray jd) \<union> refIds (writeOpenMemoryJavaBuffer jd)
                        \<union> refIds (readJavaArray jd))"
    using assms unfolding closeArchiveJniData_def Let_def
    by (simp add: free_fields DeleteGlobalRef_fields ReleaseByteArrayElements_fields
        setByteBufferPosition_fields throwArchiveException_frame split: option.splits) blast
  show "pinned (fst (projr (closeArchiveJniData env jd))) =
     unpin (readArray jd) (unpin (openMemoryArray jd) (pinned env))"
    using assms unfolding closeArchiveJniData_def unpin_def Let_def
    by (simp add: free_fields DeleteGlobalRef_fields ReleaseByteArrayElements_fields
        setByteBufferPosition_fields throwArchiveException_frame split: option.splits)
  show "mallocBlocks (fst (projr (closeArchiveJniData env jd))) =
     mallocBlocks env - blockOf (passphrase jd)"
    using assms unfolding closeArchiveJniData_def Let_def
    by (simp add: free_fields DeleteGlobalRef_fields ReleaseByteArrayElements_fields
        setByteBufferPosition_fields throwArchiveException_frame split: option.splits)
qed

lemma closeArchiveJniData_data:
  assumes "\<not> deadRef (openMemoryJavaArray jd)" "\<not> deadRef (writeOpenMemoryJavaBuffer jd)"
      and "\<not> deadRef (readJavaArray jd)"
  shows "snd (projr (closeArchiveJniData env jd)) =
     jd\<lparr>openMemoryJavaArray := None, openMemoryArray := None,
        openMemoryArrayReleaseMode :=
          (if openMemoryArray jd = None then openMemoryArrayReleaseMode jd else 0),
        writeOpenMemoryJavaBuffer := None,
        writeOpenMemoryPosition :=
          (if writeOpenMemoryJavaBuffer jd = None then writeOpenMemoryPosition jd else 0),
        writeOpenMemoryUsed :=
          (if writeOpenMemoryJavaBuffer jd = None then writeOpenMemoryUsed jd else 0),
        readJavaArray := None, readArray := None, passphrase := None\<rparr>"
  using assms unfolding closeArchiveJniData_def Let_def
  by (cases jd) (simp split: option.splits)

lemma closeArchiveJniData_quiet:
  assumes "\<not> deadRef (openMemoryJavaArray jd)" "writeOpenMemoryJavaBuffer jd = None"
      and "\<not> deadRef (readJavaArray jd)"
  shows "pending (fst (projr (closeArchiveJniData env jd))) = pending env"
    and "allocTape (fst (projr (closeArchiveJniData env jd))) = allocTape env"
  using assms unfolding closeArchiveJniData_def Let_def
  by (simp_all add: free_fields DeleteGlobalRef_fields ReleaseByteArrayElements_fields
      deadRef_def split: option.splits)

text \<open>
  Claim C7, as the binding implements it for closing. On a session that holds no memory
  array and whose kept references are global ones, \<^verbatim>\<open>readClose\<close> runs to its end and,
  whatever \<^verbatim>\<open>archive_read_close\<close> returns, has released what the session kept for its
  buffers before it called the library: the elements of the read array are unpinned, the
  global references to the output buffer and to the read array are deleted and their
  slots cleared, the stored passphrase is freed. Every other field of the binding's
  data, the callback and client-data references among them, is as before, and their
  global references stay live. When \<^verbatim>\<open>archive_read_close\<close> returned an error an exception
  is pending after the release; with no output buffer, no exception pending before and
  no allocation failure it is the \<^verbatim>\<open>ArchiveException\<close> with the handle's error number and
  text.
\<close>

theorem readClose_releases:
  assumes close: "archive_read_close (s_archive s) = (errorCode, a)"
      and nomem: "openMemoryJavaArray (s_jniData s) = None" "openMemoryArray (s_jniData s) = None"
      and kept: "\<not> deadRef (writeOpenMemoryJavaBuffer (s_jniData s))"
                "\<not> deadRef (readJavaArray (s_jniData s))"
  shows "\<not> isl (Archive_readClose archive_read_close s)
       \<and> globalRefs (s_env (projr (Archive_readClose archive_read_close s))) =
           globalRefs (s_env s) -
             (refIds (writeOpenMemoryJavaBuffer (s_jniData s))
                \<union> refIds (readJavaArray (s_jniData s)))
       \<and> pinned (s_env (projr (Archive_readClose archive_read_close s))) =
           unpin (readArray (s_jniData s)) (pinned (s_env s))
       \<and> mallocBlocks (s_env (projr (Archive_readClose archive_read_close s))) =
           mallocBlocks (s_env s) - blockOf (passphrase (s_jniData s))
       \<and> s_jniData (projr (Archive_readClose archive_read_close s)) =
           (s_jniData s)\<lparr>writeOpenMemoryJavaBuffer := None,
              writeOpenMemoryPosition :=
                (if writeOpenMemoryJavaBuffer (s_jniData s) = None
                 then writeOpenMemoryPosition (s_jniData s) else 0),
              writeOpenMemoryUsed :=
                (if writeOpenMemoryJavaBuffer (s_jniData s) = None
                 then writeOpenMemoryUsed (s_jniData s) else 0),
              readJavaArray := None, readArray := None, passphrase := None\<rparr>
       \<and> s_archive (projr (Archive_readClose archive_read_close s)) = a
       \<and> (errorCode \<noteq> 0 \<longrightarrow>
            pending (s_env (projr (Archive_readClose archive_read_close s))) \<noteq> None)
       \<and> (writeOpenMemoryJavaBuffer (s_jniData s) = None \<and> pending (s_env s) = None
            \<and> allocTape (s_env s) = [] \<longrightarrow>
            pending (s_env (projr (Archive_readClose archive_read_close s))) =
              (if errorCode = 0 then None
               else Some (Throwable True (archive_errno a) (archive_error_string a) None)))"
proof -
  let ?jd = "s_jniData s"
  have alive: "\<not> deadRef (openMemoryJavaArray ?jd)"
    using nomem by (simp add: deadRef_def)
  obtain env1 jd1 where c: "closeArchiveJniData (s_env s) ?jd = Inr (env1, jd1)"
    using closeArchiveJniData_runs [OF alive kept, of "s_env s"]
    by (cases "closeArchiveJniData (s_env s) ?jd") auto
  have sel: "fst (projr (closeArchiveJniData (s_env s) ?jd)) = env1"
            "snd (projr (closeArchiveJniData (s_env s) ?jd)) = jd1"
    by (simp_all add: c)
  have r: "Archive_readClose archive_read_close s =
             Inr (if errorCode \<noteq> 0
                  then s\<lparr>s_env := throwArchiveExceptionFromError env1 a,
                         s_jniData := jd1, s_archive := a\<rparr>
                  else s\<lparr>s_env := env1, s_jniData := jd1, s_archive := a\<rparr>)"
    using close by (simp add: Archive_readClose_def c)
  have data: "jd1 =
      ?jd\<lparr>writeOpenMemoryJavaBuffer := None,
          writeOpenMemoryPosition :=
            (if writeOpenMemoryJavaBuffer ?jd = None then writeOpenMemoryPosition ?jd else 0),
          writeOpenMemoryUsed :=
            (if writeOpenMemoryJavaBuffer ?jd = None then writeOpenMemoryUsed ?jd else 0),
          readJavaArray := None, readArray := None, passphrase := None\<rparr>"
    using closeArchiveJniData_data [OF alive kept, of "s_env s"] nomem
    unfolding sel by (cases ?jd) simp
  have refs: "globalRefs env1 =
      globalRefs (s_env s) - (refIds (writeOpenMemoryJavaBuffer ?jd) \<union> refIds (readJavaArray ?jd))"
    using closeArchiveJniData_releases(1) [OF alive kept, of "s_env s"] nomem
    unfolding sel by simp
  have pins: "pinned env1 = unpin (readArray ?jd) (pinned (s_env s))"
    using closeArchiveJniData_releases(2) [OF alive kept, of "s_env s"] nomem
    unfolding sel by (simp add: unpin_def)
  have blocks: "mallocBlocks env1 = mallocBlocks (s_env s) - blockOf (passphrase ?jd)"
    using closeArchiveJniData_releases(3) [OF alive kept, of "s_env s"]
    unfolding sel by simp
  have raised: "errorCode \<noteq> 0 \<longrightarrow>
      pending (s_env (projr (Archive_readClose archive_read_close s))) \<noteq> None"
    unfolding r
    by (simp add: throwArchiveExceptionFromError_def throwArchiveException_pending)
  have exact: "writeOpenMemoryJavaBuffer ?jd = None \<and> pending (s_env s) = None
        \<and> allocTape (s_env s) = [] \<longrightarrow>
      pending (s_env (projr (Archive_readClose archive_read_close s))) =
        (if errorCode = 0 then None
         else Some (Throwable True (archive_errno a) (archive_error_string a) None))"
  proof (intro impI, elim conjE)
    assume nobuf: "writeOpenMemoryJavaBuffer ?jd = None"
       and idle: "pending (s_env s) = None" "allocTape (s_env s) = []"
    have q: "pending env1 = None" "allocTape env1 = []"
      using closeArchiveJniData_quiet [OF alive nobuf kept(2), of "s_env s"] idle
      unfolding sel by simp_all
    show "pending (s_env (projr (Archive_readClose archive_read_close s))) =
        (if errorCode = 0 then None
         else Some (Throwable True (archive_errno a) (archive_error_string a) None))"
      unfolding r
      by (simp add: throwArchiveExceptionFromError_def throwArchiveException_ok [OF q(2)] q(1))
  qed
  have rest: "\<not> isl (Archive_readClose archive_read_close s)"
    "globalRefs (s_env (projr (Archive_readClose archive_read_close s))) = globalRefs env1"
    "pinned (s_env (projr (Archive_readClose archive_read_close s))) = pinned env1"
    "mallocBlocks (s_env (projr (Archive_readClose archive_read_close s))) = mallocBlocks env1"
    "s_jniData (projr (Archive_readClose archive_read_close s)) = jd1"
    "s_archive (projr (Archive_readClose archive_read_close s)) = a"
    unfolding r
    by (simp_all add: throwArchiveExceptionFromError_def throwArchiveException_frame)
  show ?thesis
    unfolding rest(2-6) refs pins blocks
    using rest(1) raised exact data by simp
qed

lemma readerSession_eq:
  "readerSession =
     (newSession 0)\<lparr>s_env := idleEnv\<lparr>globalRefs := {0}, nextRef := Suc 0\<rparr>,
                     s_jniData := calloc_ArchiveJniData\<lparr>readCallback := Some (GlobalRef 0 5)\<rparr>\<rparr>"
  by (simp add: readerSession_def Archive_readSetReadCallback_def NewGlobalRef_def
      set_ok_def ARCHIVE_OK_def DeleteGlobalRef_def newSession_def
      calloc_ArchiveJniData_def allocOk_def allocNext_def idleEnv_def)

lemma closingSession_eq:
  "s_env closingSession =
     idleEnv\<lparr>globalRefs := {0, 1}, nextRef := 2, pinned := [2], mallocBlocks := {0},
              nextBlock := 1\<rparr>"
  "s_jniData closingSession =
     calloc_ArchiveJniData\<lparr>readCallback := Some (GlobalRef 0 5),
        readJavaArray := Some (GlobalRef 1 2), readArray := Some 2,
        passphrase := Some (CString 0 ''secret'')\<rparr>"
  "s_archive closingSession = s_archive (newSession 0)"
  by (simp_all add: closingSession_def readerSession_eq idleEnv_def calloc_ArchiveJniData_def)

text \<open>
  The theorem at the session with a read callback installed, a pinned read array and a
  stored passphrase, where \<^verbatim>\<open>archive_read_close\<close> reports an error: the array is
  unpinned, its reference deleted and the passphrase freed, and the error is raised.
\<close>

theorem readClose_releases_witness:
  "globalRefs (s_env closingSession) = {0, 1}
   \<and> \<not> isl (Archive_readClose close_failing closingSession)
   \<and> globalRefs (s_env (projr (Archive_readClose close_failing closingSession))) = {0}
   \<and> pinned (s_env (projr (Archive_readClose close_failing closingSession))) = []
   \<and> mallocBlocks (s_env (projr (Archive_readClose close_failing closingSession))) = {}
   \<and> passphrase (s_jniData (projr (Archive_readClose close_failing closingSession))) = None
   \<and> pending (s_env (projr (Archive_readClose close_failing closingSession)))
       = Some (Throwable True 5 (Some ''close failed'') None)"
proof -
  have close: "close_failing (s_archive closingSession)
                 = (ARCHIVE_FATAL, archive_set_error (s_archive closingSession) 5
                                     (Some ''close failed''))"
    by (simp add: close_failing_def)
  have nomem: "openMemoryJavaArray (s_jniData closingSession) = None"
              "openMemoryArray (s_jniData closingSession) = None"
    by (simp_all add: closingSession_eq calloc_ArchiveJniData_def)
  have kept: "\<not> deadRef (writeOpenMemoryJavaBuffer (s_jniData closingSession))"
             "\<not> deadRef (readJavaArray (s_jniData closingSession))"
    by (simp_all add: closingSession_eq calloc_ArchiveJniData_def deadRef_def)
  from readClose_releases [where archive_read_close = close_failing, OF close nomem kept]
  show ?thesis
    by (auto simp: closingSession_eq calloc_ArchiveJniData_def idleEnv_def unpin_def blockOf_def
        ARCHIVE_FATAL_def archive_set_error_def)
qed

text \<open>
  The claim fails for closing: after \<^verbatim>\<open>readClose\<close>, on the error path as on any other,
  the reference to the read callback is still held and still live.
\<close>

theorem close_keeps_callbacks_counterexample:
  "map_sum id (\<lambda>s'. (readCallback (s_jniData s'), globalRefs (s_env s'), pending (s_env s')))
     (Archive_readClose close_failing readerSession)
   = Inr (Some (GlobalRef 0 5), {0}, Some (Throwable True 5 (Some ''close failed'') None))"
proof -
  have c: "closeArchiveJniData (s_env readerSession) (s_jniData readerSession)
             = Inr (s_env readerSession, s_jniData readerSession)"
    by (simp add: readerSession_eq closeArchiveJniData_def Let_def DeleteGlobalRef_def
        free_def calloc_ArchiveJniData_def deadRef_def)
  show ?thesis
    by (simp add: Archive_readClose_def c close_failing_def ARCHIVE_FATAL_def
        throwArchiveExceptionFromError_def archive_set_error_def)
       (simp add: readerSession_eq throwArchiveException_ok idleEnv_def
        calloc_ArchiveJniData_def)
qed

section \<open>Callback slots\<close>

lemma slotIds_simps [simp]:
  "slotIds [] = []" "slotIds (r # rs) = refIdList r @ slotIds rs"
  "slotIds (xs @ ys) = slotIds xs @ slotIds ys"
  by (simp_all add: slotIds_def)

lemma refIdList_distinct [simp]: "distinct (refIdList r)"
  by (cases r rule: refIdList.cases) simp_all

lemma slot_replaced:
  assumes d: "distinct (slotIds (ys @ x # zs))"
      and fresh: "refIds r \<inter> set (slotIds (ys @ x # zs)) = {}"
  shows "distinct (slotIds (ys @ r # zs))"
    and "set (slotIds (ys @ r # zs)) = set (slotIds (ys @ x # zs)) - refIds x \<union> refIds r"
  using d fresh by (auto simp: refIdList_set [symmetric])

lemma slot_cleared:
  assumes d: "distinct (slotIds (ys @ x # zs))"
  shows "distinct (slotIds (ys @ None # zs))"
    and "set (slotIds (ys @ None # zs)) = set (slotIds (ys @ x # zs)) - refIds x"
  using d by (auto simp: refIdList_set [symmetric])

lemma NewGlobalRef_cases:
  "NewGlobalRef env javaCallback =
     (case javaCallback of
        None \<Rightarrow> (None, env)
      | Some x \<Rightarrow>
          if allocOk env
          then (Some (GlobalRef (nextRef env) x),
                (allocNext env)\<lparr>globalRefs := insert (nextRef env) (globalRefs env),
                                 nextRef := Suc (nextRef env)\<rparr>)
          else (None, allocNext env))"
  by (simp add: NewGlobalRef_def)

text \<open>
  One setter, for a slot that sits between \<open>ys\<close> and \<open>zs\<close> in the list of callback slots.
\<close>

lemma setter_outcome:
  fixes s :: "'n session"
  assumes inv: "slotsOwnOneEach (s_env s) (s_jniData s)"
      and slots: "callbackSlots (s_jniData s) = ys @ slot (s_jniData s) # zs"
      and put: "\<And>r. callbackSlots (put r (s_jniData s)) = ys @ r # zs"
      and setter: "setter s javaCallback =
         (case NewGlobalRef (s_env s) javaCallback of
            (javaCallbackRef, env1) \<Rightarrow>
              if javaCallback \<noteq> None \<and> javaCallbackRef = None
              then s\<lparr>s_env := throwArchiveException env1 ARCHIVE_FATAL (Some ''NewGlobalRef'')\<rparr>
              else
                (case set_callback (s_archive s) (javaCallbackRef \<noteq> None) of
                   (errorCode, a) \<Rightarrow>
                     if errorCode \<noteq> 0
                     then s\<lparr>s_env := throwArchiveExceptionFromError
                                        (DeleteGlobalRef env1 javaCallbackRef) a,
                            s_archive := a\<rparr>
                     else s\<lparr>s_env := DeleteGlobalRef env1 (slot (s_jniData s)),
                            s_jniData := put javaCallbackRef (s_jniData s),
                            s_archive := a\<rparr>))"
  shows "setterOutcome slot put s javaCallback
           (fst (set_callback (s_archive s) (fst (NewGlobalRef (s_env s) javaCallback) \<noteq> None)))
           (setter s javaCallback)"
proof -
  let ?G = "globalRefs (s_env s)"
  let ?n = "nextRef (s_env s)"
  let ?old = "slot (s_jniData s)"
  have d: "distinct (slotIds (ys @ ?old # zs))"
   and live: "set (slotIds (ys @ ?old # zs)) \<subseteq> ?G"
   and below: "?G \<subseteq> {i. i < ?n}"
    using inv slots by (simp_all add: slotsOwnOneEach_def)
  have old_live: "refIds ?old \<subseteq> ?G"
    using live by (auto simp: refIdList_set [symmetric])
  have n_fresh: "?n \<notin> ?G" using below by auto
  show ?thesis
  proof (cases javaCallback)
    case None
    obtain errorCode a where r: "set_callback (s_archive s) False = (errorCode, a)"
      by (cases "set_callback (s_archive s) False") simp
    show ?thesis
    proof (cases "errorCode = 0")
      case True
      have now: "setter s javaCallback =
                   s\<lparr>s_env := DeleteGlobalRef (s_env s) ?old, s_jniData := put None (s_jniData s),
                     s_archive := a\<rparr>"
        unfolding setter unfolding None using r True by (simp add: NewGlobalRef_cases)
      have G': "globalRefs (DeleteGlobalRef (s_env s) ?old) = ?G - refIds ?old"
        by (simp add: DeleteGlobalRef_fields)
      have N': "nextRef (DeleteGlobalRef (s_env s) ?old) = ?n"
        by (simp add: DeleteGlobalRef_def split: option.splits jref.splits)
      have P': "pending (DeleteGlobalRef (s_env s) ?old) = pending (s_env s)"
        by (simp add: DeleteGlobalRef_fields)
      have I': "slotsOwnOneEach (DeleteGlobalRef (s_env s) ?old) (put None (s_jniData s))"
        unfolding slotsOwnOneEach_def put G' N'
        using slot_cleared [OF d] live below by auto
      show ?thesis
        unfolding setterOutcome_def now
        using None r True I' G' P' by (simp add: NewGlobalRef_cases Let_def)
    next
      case False
      have now: "setter s javaCallback =
                   s\<lparr>s_env := throwArchiveExceptionFromError (s_env s) a, s_archive := a\<rparr>"
        unfolding setter unfolding None using r False by (simp add: NewGlobalRef_cases DeleteGlobalRef_def)
      show ?thesis
        unfolding setterOutcome_def now
        using None r False inv
        by (simp add: NewGlobalRef_cases slotsOwnOneEach_def throwArchiveExceptionFromError_def
            throwArchiveException_frame throwArchiveException_pending)
    qed
  next
    case (Some x)
    show ?thesis
    proof (cases "allocOk (s_env s)")
      case False
      have now: "setter s javaCallback =
                   s\<lparr>s_env := throwArchiveException (allocNext (s_env s)) ARCHIVE_FATAL
                                  (Some ''NewGlobalRef'')\<rparr>"
        unfolding setter unfolding Some using False by (simp add: NewGlobalRef_cases)
      show ?thesis
        unfolding setterOutcome_def now
        using Some False inv
        by (simp add: NewGlobalRef_cases slotsOwnOneEach_def throwArchiveException_frame
            throwArchiveException_pending)
    next
      case True
      let ?new = "Some (GlobalRef ?n x)"
      let ?env1 = "(allocNext (s_env s))\<lparr>globalRefs := insert ?n ?G, nextRef := Suc ?n\<rparr>"
      have ngr: "NewGlobalRef (s_env s) (Some x) = (?new, ?env1)"
        using True by (simp add: NewGlobalRef_cases)
      obtain errorCode a where r: "set_callback (s_archive s) True = (errorCode, a)"
        by (cases "set_callback (s_archive s) True") simp
      have fresh: "refIds ?new \<inter> set (slotIds (ys @ ?old # zs)) = {}"
        using live n_fresh by auto
      show ?thesis
      proof (cases "errorCode = 0")
        case ok: True
        have now: "setter s javaCallback =
                     s\<lparr>s_env := DeleteGlobalRef ?env1 ?old, s_jniData := put ?new (s_jniData s),
                       s_archive := a\<rparr>"
          unfolding setter unfolding Some ngr using r ok by simp
        have G': "globalRefs (DeleteGlobalRef ?env1 ?old) = ?G - refIds ?old \<union> {?n}"
          using old_live n_fresh by (auto simp: DeleteGlobalRef_fields)
        have N': "nextRef (DeleteGlobalRef ?env1 ?old) = Suc ?n"
          by (simp add: DeleteGlobalRef_def split: option.splits jref.splits)
        have P': "pending (DeleteGlobalRef ?env1 ?old) = pending (s_env s)"
          by (simp add: DeleteGlobalRef_fields)
        have I': "slotsOwnOneEach (DeleteGlobalRef ?env1 ?old) (put ?new (s_jniData s))"
          unfolding slotsOwnOneEach_def put G' N'
          using slot_replaced [OF d fresh] live below by auto
        show ?thesis
          unfolding setterOutcome_def now
          using Some r ok I' G' P' by (simp add: ngr Let_def)
      next
        case failed: False
        have now: "setter s javaCallback =
                     s\<lparr>s_env := throwArchiveExceptionFromError (DeleteGlobalRef ?env1 ?new) a,
                       s_archive := a\<rparr>"
          unfolding setter unfolding Some ngr using r failed by simp
        have G': "globalRefs (DeleteGlobalRef ?env1 ?new) = ?G"
          using n_fresh by (auto simp: DeleteGlobalRef_fields)
        have N': "nextRef (DeleteGlobalRef ?env1 ?new) = Suc ?n"
          by (simp add: DeleteGlobalRef_def)
        have I': "slotsOwnOneEach (DeleteGlobalRef ?env1 ?new) (s_jniData s)"
          unfolding slotsOwnOneEach_def G' N'
          using inv by (auto simp: slotsOwnOneEach_def)
        show ?thesis
          unfolding setterOutcome_def now
          using Some r failed I' G'
          by (simp add: ngr Let_def throwArchiveExceptionFromError_def
              throwArchiveException_frame throwArchiveException_pending slotsOwnOneEach_def)
      qed
    qed
  qed
qed

text \<open>
  Claim C10. The global reference of a callback slot is live and held by no other slot,
  and \<^verbatim>\<open>readSetReadCallback\<close>, \<^verbatim>\<open>readSetOpenCallback\<close> and \<^verbatim>\<open>readSetSwitchCallback\<close>
  keep it so. When the library accepts the registration, the slot holds the new
  reference (none for a \<^verbatim>\<open>null\<close> callback), the reference it held before is deleted and
  no other reference or slot changes. When the library refuses it, or the new reference
  cannot be created, the binding's data and the set of live references are as before
  the call, so the new reference is deleted again, and an exception is pending.
\<close>

theorem callback_setters_keep_slots:
  assumes "slotsOwnOneEach (s_env s) (s_jniData s)"
  shows "setterOutcome readCallback (\<lambda>r jd. jd\<lparr>readCallback := r\<rparr>) s javaCallback
           (fst (set_read (s_archive s) (fst (NewGlobalRef (s_env s) javaCallback) \<noteq> None)))
           (Archive_readSetReadCallback set_read s javaCallback)
       \<and> setterOutcome openCallback (\<lambda>r jd. jd\<lparr>openCallback := r\<rparr>) s javaCallback
           (fst (set_open (s_archive s) (fst (NewGlobalRef (s_env s) javaCallback) \<noteq> None)))
           (Archive_readSetOpenCallback set_open s javaCallback)
       \<and> setterOutcome switchCallback (\<lambda>r jd. jd\<lparr>switchCallback := r\<rparr>) s javaCallback
           (fst (set_switch (s_archive s) (fst (NewGlobalRef (s_env s) javaCallback) \<noteq> None)))
           (Archive_readSetSwitchCallback set_switch s javaCallback)"
proof (intro conjI)
  let ?jd = "s_jniData s"
  show "setterOutcome readCallback (\<lambda>r jd. jd\<lparr>readCallback := r\<rparr>) s javaCallback
           (fst (set_read (s_archive s) (fst (NewGlobalRef (s_env s) javaCallback) \<noteq> None)))
           (Archive_readSetReadCallback set_read s javaCallback)"
    by (rule setter_outcome [where ys = "[]"
          and zs = "[skipCallback ?jd, seekCallback ?jd, writeCallback ?jd, openCallback ?jd,
                     closeCallback ?jd, freeCallback ?jd, switchCallback ?jd,
                     passphraseCallback ?jd]"])
       (simp_all add: assms callbackSlots_def Archive_readSetReadCallback_def)
  show "setterOutcome openCallback (\<lambda>r jd. jd\<lparr>openCallback := r\<rparr>) s javaCallback
           (fst (set_open (s_archive s) (fst (NewGlobalRef (s_env s) javaCallback) \<noteq> None)))
           (Archive_readSetOpenCallback set_open s javaCallback)"
    by (rule setter_outcome [where ys = "[readCallback ?jd, skipCallback ?jd, seekCallback ?jd,
                                         writeCallback ?jd]"
          and zs = "[closeCallback ?jd, freeCallback ?jd, switchCallback ?jd,
                     passphraseCallback ?jd]"])
       (simp_all add: assms callbackSlots_def Archive_readSetOpenCallback_def)
  show "setterOutcome switchCallback (\<lambda>r jd. jd\<lparr>switchCallback := r\<rparr>) s javaCallback
           (fst (set_switch (s_archive s) (fst (NewGlobalRef (s_env s) javaCallback) \<noteq> None)))
           (Archive_readSetSwitchCallback set_switch s javaCallback)"
    by (rule setter_outcome [where ys = "[readCallback ?jd, skipCallback ?jd, seekCallback ?jd,
                                         writeCallback ?jd, openCallback ?jd, closeCallback ?jd,
                                         freeCallback ?jd]"
          and zs = "[passphraseCallback ?jd]"])
       (simp_all add: assms callbackSlots_def Archive_readSetSwitchCallback_def)
qed

lemma readerSession_owned: "slotsOwnOneEach (s_env readerSession) (s_jniData readerSession)"
  by (simp add: readerSession_eq slotsOwnOneEach_def callbackSlots_def
      calloc_ArchiveJniData_def idleEnv_def)

text \<open>
  The theorem at the session that has the Java object 5 as read callback: object 6 is
  installed in its place, and a registration of an open callback is refused.
\<close>

theorem callback_setters_keep_slots_witness:
  "readCallback (s_jniData (Archive_readSetReadCallback set_ok readerSession (Some 6)))
     = Some (GlobalRef 1 6)
   \<and> globalRefs (s_env (Archive_readSetReadCallback set_ok readerSession (Some 6))) = {1}
   \<and> s_jniData (Archive_readSetOpenCallback set_failing readerSession (Some 6))
     = s_jniData readerSession
   \<and> globalRefs (s_env (Archive_readSetOpenCallback set_failing readerSession (Some 6))) = {0}"
proof -
  have new: "fst (NewGlobalRef (s_env readerSession) (Some 6)) = Some (GlobalRef 1 6)"
    by (simp add: readerSession_eq NewGlobalRef_def allocOk_def idleEnv_def)
  have old: "readCallback (s_jniData readerSession) = Some (GlobalRef 0 5)"
    "globalRefs (s_env readerSession) = {0}"
    by (simp_all add: readerSession_eq calloc_ArchiveJniData_def idleEnv_def)
  from callback_setters_keep_slots [OF readerSession_owned, where javaCallback = "Some 6"
      and set_read = set_ok and set_open = set_failing and set_switch = set_ok]
  show ?thesis
    by (simp add: setterOutcome_def new old set_ok_def set_failing_def ARCHIVE_OK_def
        ARCHIVE_FATAL_def Let_def)
qed

end
